theory Spec2Isabelle
  imports Complex_Main
begin

section \<open>Values\<close>

text \<open>
  An ObjectId is a number. A JavaScript string is a list of code units; the model keeps the
  code units below 256. A \<open>Date\<close> is read through \<open>getFullYear\<close> and \<open>getMonth\<close>
  (local time); what is left of the instant is \<open>timeInMonth\<close>.
\<close>

type_synonym oid = nat

record jsdate =
  getFullYear :: int
  getMonth :: nat
  timeInMonth :: nat

text \<open>
  \<open>String.prototype.trim\<close> removes the ECMAScript WhiteSpace and LineTerminator code units
  from both ends: TAB, LF, VT, FF, CR, SPACE and NBSP are the ones below 256.
\<close>

definition isWhiteSpace :: "char \<Rightarrow> bool" where
  "isWhiteSpace c = ((of_char c :: nat) \<in> set [9, 10, 11, 12, 13, 32, 160])"

definition trim :: "string \<Rightarrow> string" where
  "trim s = rev (dropWhile isWhiteSpace (rev (dropWhile isWhiteSpace s)))"

text \<open>An error that is thrown: by a collaborator (with its message), by schema validation
  in \<open>save()\<close>, or by reading a property of \<open>null\<close>.\<close>

datatype js_error = Failure string | ValidationError | TypeError

text \<open>An external call either throws or returns.\<close>

datatype 'a reply = Throws string | Returns 'a

section \<open>models/User.js\<close>

datatype subscription = Free | Premium | Enterprise

datatype theme_name = Light | Dark

record api_usage =
  monthly :: int
  lastReset :: jsdate
  totalUsage :: int

record preference =
  theme :: theme_name
  language :: string
  notifications :: bool

text \<open>
  A user document or the plain object made of it. \<open>password\<close> is \<open>None\<close> when the path is
  absent: it is declared \<open>select: false\<close>, so a query leaves it out unless it asks for
  \<open>+password\<close>. \<open>apiUsage\<close> and \<open>preferences\<close> are single nested subdocuments without a
  default, \<open>subscriptionType\<close> is an enum with a default.
\<close>

record user =
  user_id :: oid
  email :: string
  password :: "string option"
  name :: string
  subscriptionType :: "subscription option"
  subscriptionExpiry :: "jsdate option"
  apiUsage :: "api_usage option"
  preferences :: "preference option"
  user_createdAt :: jsdate
  user_updatedAt :: jsdate

text \<open>The validators of \<open>userSchema\<close> that \<open>save()\<close> runs on a loaded document: \<open>required\<close>
  on \<open>email\<close> and \<open>name\<close>; \<open>required\<close> and \<open>minlength\<close> on \<open>password\<close> only when the path
  is selected.\<close>

definition user_valid :: "user \<Rightarrow> bool" where
  "user_valid u =
     (email u \<noteq> [] \<and> name u \<noteq> [] \<and>
      (case password u of None \<Rightarrow> True | Some p \<Rightarrow> 6 \<le> length p))"

text \<open>\<open>userSchema.methods.toJSON\<close>: \<open>toObject\<close> copies the paths the document has into a plain
  object, \<open>delete obj.password\<close> removes that property.\<close>

definition toObject :: "user \<Rightarrow> user" where
  "toObject u = u"

definition toJSON :: "user \<Rightarrow> user" where
  "toJSON u = (let obj = toObject u in obj\<lparr>password := None\<rparr>)"

section \<open>models/Resume.js\<close>

datatype file_type = Pdf | Docx | Txt

datatype status = Uploaded | Analyzing | Analyzed | Enhanced

record analysis =
  score :: "real option"
  suggestions :: "string list"
  analysis_keywords :: "string list"
  strengths :: "string list"
  weaknesses :: "string list"
  atsCompatibility :: "real option"

record job_match =
  jobTitle :: string
  companyName :: string
  matchScore :: real
  matchedKeywords :: "string list"
  match_suggestions :: "string list"
  strengthAreas :: "string list"
  improvementAreas :: "string list"
  salaryNegotiationPoints :: "string list"
  match_createdAt :: jsdate

record version =
  versionName :: string
  content :: string
  version_createdAt :: jsdate

text \<open>The paths of \<open>resumeSchema\<close>, with \<open>_id\<close> and the two timestamps of
  \<open>timestamps: true\<close>. This is what the collection stores.\<close>

record resume =
  resume_id :: oid
  userId :: oid
  title :: string
  originalText :: string
  enhancedText :: "string option"
  fileName :: string
  fileType :: file_type
  analysisResults :: "analysis option"
  jobMatching :: "job_match list"
  versions :: "version list"
  status :: status
  createdAt :: jsdate
  updatedAt :: jsdate

text \<open>
  A document in memory is a JavaScript object: besides the schema's paths it can be given
  other properties. The routes assign \<open>targetRole\<close> and \<open>targetIndustry\<close>, which
  \<open>resumeSchema\<close> does not declare; they live on the object only.
\<close>

record resume_document = resume +
  targetRole :: "string option"
  targetIndustry :: "string option"

definition hydrate :: "resume \<Rightarrow> resume_document" where
  "hydrate r = resume.extend r \<lparr>targetRole = None, targetIndustry = None\<rparr>"

definition stored :: "resume_document \<Rightarrow> resume" where
  "stored d = resume.truncate d"

text \<open>The validators of the schemas: \<open>min: 0, max: 100\<close> on the scores, \<open>required\<close> on
  \<open>title\<close>, \<open>originalText\<close> and \<open>fileName\<close> (a required string is not empty),
  \<open>maxlength: 200\<close> on \<open>title\<close>.\<close>

definition percent :: "real option \<Rightarrow> bool" where
  "percent v = (case v of None \<Rightarrow> True | Some x \<Rightarrow> 0 \<le> x \<and> x \<le> 100)"

definition analysis_valid :: "analysis \<Rightarrow> bool" where
  "analysis_valid a = (percent (score a) \<and> percent (atsCompatibility a))"

definition job_match_valid :: "job_match \<Rightarrow> bool" where
  "job_match_valid m = (0 \<le> matchScore m \<and> matchScore m \<le> 100)"

definition resume_valid :: "resume \<Rightarrow> bool" where
  "resume_valid r =
     (title r \<noteq> [] \<and> length (title r) \<le> 200 \<and> originalText r \<noteq> [] \<and> fileName r \<noteq> [] \<and>
      (case analysisResults r of None \<Rightarrow> True | Some a \<Rightarrow> analysis_valid a) \<and>
      list_all job_match_valid (jobMatching r))"

section \<open>The process and its collaborators\<close>

record jwt_payload =
  payload_userId :: oid
  payload_email :: string

record analysis_reply =
  reply_score :: "real option"
  reply_strengths :: "string list option"
  reply_weaknesses :: "string list option"
  reply_keywords :: "string list option"
  reply_atsCompatibility :: "real option"
  reply_suggestions :: "string list option"

record match_reply =
  reply_matchScore :: "real option"
  reply_matchedKeywords :: "string list option"
  reply_missingKeywords :: "string list option"
  reply_matchSuggestions :: "string list option"
  reply_strengthAreas :: "string list option"
  reply_improvementAreas :: "string list option"
  reply_salaryNegotiationPoints :: "string list option"

text \<open>
  What a request reads from outside the program: the clock, \<open>NODE_ENV\<close>, whether the
  service was built without a key (\<open>useMock\<close>), the draws of \<open>Math.random()\<close> in the order
  they are made, the generation provider (the model's answer, already through
  \<open>JSON.parse\<close> where the service parses it; \<open>None\<close> is \<open>null\<close>), the text extractors
  (\<open>utf8\<close> is \<open>buffer.toString('utf-8')\<close>),
  \<open>jwt.verify\<close> and \<open>jwt.sign\<close> under the server's secret, and the ObjectId a new document
  gets.
\<close>

record env =
  now :: jsdate
  development :: bool
  useMock :: bool
  random :: "nat \<Rightarrow> real"
  generateAnalysis :: "string \<Rightarrow> analysis_reply option reply"
  generateEnhancement :: "string \<Rightarrow> string \<Rightarrow> string \<Rightarrow> string reply"
  generateMatch :: "string \<Rightarrow> string \<Rightarrow> string \<Rightarrow> string \<Rightarrow> match_reply option reply"
  pdfParse :: "string \<Rightarrow> string option reply"
  mammoth :: "string \<Rightarrow> string option reply"
  utf8 :: "string \<Rightarrow> string"
  jwt_verify :: "string \<Rightarrow> jwt_payload option"
  jwt_sign :: "jwt_payload \<Rightarrow> string"
  newObjectId :: oid

text \<open>
  The state a request changes: the two collections. \<open>faults\<close> is the fate of the coming
  store operations, in order (\<open>Some m\<close>: the operation throws with message \<open>m\<close>; past
  the end of the list every operation succeeds). \<open>events\<close> records, in order, each
  \<open>save()\<close> of a resume that returned, with the resume as the store then holds it, and
  each call of the generation service.
\<close>

datatype event = Saved resume | Invoked

record world =
  users :: "user list"
  resumes :: "resume list"
  faults :: "string option list"
  events :: "event list"

definition attempt :: "world \<Rightarrow> string option \<times> world" where
  "attempt w = (case faults w of [] \<Rightarrow> (None, w) | f # fs \<Rightarrow> (f, w\<lparr>faults := fs\<rparr>))"

text \<open>\<open>fate k w\<close> is the fate of the \<open>k\<close>-th store operation to come (from 0), \<open>later w\<close>
  the state once one operation has been attempted.\<close>

definition fate :: "nat \<Rightarrow> world \<Rightarrow> string option" where
  "fate k w = (if k < length (faults w) then faults w ! k else None)"

definition later :: "world \<Rightarrow> world" where
  "later w = w\<lparr>faults := tl (faults w)\<rparr>"

section \<open>Requests and responses\<close>

text \<open>
  The parts of an Express request the routes read. \<open>resumeId\<close> is the \<open>:resumeId\<close>
  parameter, \<open>None\<close> when \<open>mongoose.Types.ObjectId.isValid\<close> refuses it. A body field is
  absent or a string; \<open>upload\<close> is \<open>req.file\<close> as multer leaves it, its \<open>buffer\<close> a list of
  bytes.
\<close>

record upload_file =
  mimetype :: string
  originalname :: string
  buffer :: string

record preference_update =
  new_theme :: "string option"
  new_language :: "string option"
  new_notifications :: "bool option"

record request =
  requestId :: string
  authorization :: "string option"
  resumeId :: "oid option"
  upload :: "upload_file option"
  body_title :: "string option"
  body_targetRole :: "string option"
  body_targetIndustry :: "string option"
  body_jobTitle :: "string option"
  body_jobDescription :: "string option"
  body_companyName :: "string option"
  body_name :: "string option"
  body_preferences :: "preference_update option"

datatype error_text = MessageOf js_error | Literal string

record profile_stats =
  totalResumes :: nat
  analyzedResumes :: nat
  stats_apiUsage :: "api_usage option"

record auth_user =
  auth_id :: oid
  auth_name :: string
  auth_email :: string
  auth_subscriptionType :: "subscription option"

text \<open>The \<open>data\<close> object of each route, its properties in the order the route writes them.\<close>

datatype payload =
    UploadData oid string string string file_type status jsdate
  | ResumeData resume
  | TitleData oid string
  | AnalysisData oid "analysis_reply option"
  | EnhanceData oid string string string
  | MatchData oid match_reply
  | HistoryData oid status "string option" "string option" "analysis option" "job_match list" jsdate
  | UserData user
  | ProfileData user profile_stats
  | AuthData string auth_user

record response =
  statusCode :: nat
  success :: bool
  message :: "string option"
  data :: "payload option"
  error :: "error_text option"
  res_requestId :: string

definition rejected :: "nat \<Rightarrow> string \<Rightarrow> request \<Rightarrow> response" where
  "rejected code msg req =
     \<lparr>statusCode = code, success = False, message = Some msg, data = None, error = None,
      res_requestId = requestId req\<rparr>"

definition succeeded :: "string \<Rightarrow> payload \<Rightarrow> request \<Rightarrow> response" where
  "succeeded msg d req =
     \<lparr>statusCode = 200, success = True, message = Some msg, data = Some d, error = None,
      res_requestId = requestId req\<rparr>"

text \<open>The \<open>catch\<close> of a route: status 500, and \<open>error.message\<close> only in development.\<close>

definition failed :: "env \<Rightarrow> string \<Rightarrow> js_error \<Rightarrow> request \<Rightarrow> response" where
  "failed env msg e req =
     \<lparr>statusCode = 500, success = False, message = Some msg, data = None,
      error = Some (if development env then MessageOf e else Literal ''Internal server error''),
      res_requestId = requestId req\<rparr>"

section \<open>The collections\<close>

text \<open>A query leaves \<open>password\<close> out (\<open>select: false\<close>).\<close>

definition select_default :: "user \<Rightarrow> user" where
  "select_default u = u\<lparr>password := None\<rparr>"

definition User_findById :: "oid \<Rightarrow> world \<Rightarrow> (js_error + user option) \<times> world" where
  "User_findById i w =
     (case attempt w of
        (Some m, w1) \<Rightarrow> (Inl (Failure m), w1)
      | (None, w1) \<Rightarrow>
          (Inr (map_option select_default (List.find (\<lambda>u. user_id u = i) (users w1))), w1))"

text \<open>\<open>save()\<close> validates, then writes the document over the stored one with its \<open>_id\<close> and
  sets \<open>updatedAt\<close>; a path that was not selected keeps its stored value.\<close>

definition written :: "user \<Rightarrow> user \<Rightarrow> user" where
  "written old doc = (case password doc of None \<Rightarrow> doc\<lparr>password := password old\<rparr> | Some p \<Rightarrow> doc)"

definition User_save :: "env \<Rightarrow> user \<Rightarrow> world \<Rightarrow> (js_error + user) \<times> world" where
  "User_save env doc w =
     (if \<not> user_valid doc then (Inl ValidationError, w)
      else case attempt w of
        (Some m, w1) \<Rightarrow> (Inl (Failure m), w1)
      | (None, w1) \<Rightarrow>
          let doc' = doc\<lparr>user_updatedAt := now env\<rparr> in
          (Inr doc',
           w1\<lparr>users := map (\<lambda>u. if user_id u = user_id doc' then written u doc' else u) (users w1)\<rparr>))"

definition User_findByIdAndUpdate ::
  "env \<Rightarrow> oid \<Rightarrow> (user \<Rightarrow> user) \<Rightarrow> world \<Rightarrow> (js_error + user option) \<times> world" where
  "User_findByIdAndUpdate env i change w =
     (case attempt w of
        (Some m, w1) \<Rightarrow> (Inl (Failure m), w1)
      | (None, w1) \<Rightarrow>
          (case List.find (\<lambda>u. user_id u = i) (users w1) of
             None \<Rightarrow> (Inr None, w1)
           | Some u \<Rightarrow>
               let u' = (change u)\<lparr>user_updatedAt := now env\<rparr> in
               (Inr (Some (select_default u')),
                w1\<lparr>users := map (\<lambda>x. if user_id x = i then u' else x) (users w1)\<rparr>)))"

definition Resume_findOne ::
  "(resume \<Rightarrow> bool) \<Rightarrow> world \<Rightarrow> (js_error + resume_document option) \<times> world" where
  "Resume_findOne query w =
     (case attempt w of
        (Some m, w1) \<Rightarrow> (Inl (Failure m), w1)
      | (None, w1) \<Rightarrow> (Inr (map_option hydrate (List.find query (resumes w1))), w1))"

definition Resume_countDocuments ::
  "(resume \<Rightarrow> bool) \<Rightarrow> world \<Rightarrow> (js_error + nat) \<times> world" where
  "Resume_countDocuments query w =
     (case attempt w of
        (Some m, w1) \<Rightarrow> (Inl (Failure m), w1)
      | (None, w1) \<Rightarrow> (Inr (length (filter query (resumes w1))), w1))"

definition replace :: "resume \<Rightarrow> resume list \<Rightarrow> resume list" where
  "replace r rs = map (\<lambda>x. if resume_id x = resume_id r then r else x) rs"

text \<open>
  \<open>save()\<close> of a loaded document: the validators run on the whole document. When a path
  of the schema holds a value that is not the stored one (\<open>isModified\<close>), the schema's paths
  are written (\<open>stored\<close>) with \<open>updatedAt\<close> set to now; when none does, nothing is written.
  \<open>Resume_create\<close> is \<open>save()\<close> of a document made by \<open>new Resume(...)\<close>, which is inserted.
\<close>

definition isModified :: "resume_document \<Rightarrow> world \<Rightarrow> bool" where
  "isModified d w =
     (List.find (\<lambda>x. resume_id x = resume_id d) (resumes w) \<noteq> Some (stored d))"

definition Resume_save ::
  "env \<Rightarrow> resume_document \<Rightarrow> world \<Rightarrow> (js_error + resume_document) \<times> world" where
  "Resume_save env d w =
     (if \<not> resume_valid (stored d) then (Inl ValidationError, w)
      else case attempt w of
        (Some m, w1) \<Rightarrow> (Inl (Failure m), w1)
      | (None, w1) \<Rightarrow>
          if isModified d w1 then
            let d' = d\<lparr>updatedAt := now env\<rparr> in
            (Inr d',
             w1\<lparr>resumes := replace (stored d') (resumes w1),
                events := events w1 @ [Saved (stored d')]\<rparr>)
          else (Inr d, w1\<lparr>events := events w1 @ [Saved (stored d)]\<rparr>))"

definition Resume_create ::
  "env \<Rightarrow> resume_document \<Rightarrow> world \<Rightarrow> (js_error + resume_document) \<times> world" where
  "Resume_create env d w =
     (if \<not> resume_valid (stored d) then (Inl ValidationError, w)
      else case attempt w of
        (Some m, w1) \<Rightarrow> (Inl (Failure m), w1)
      | (None, w1) \<Rightarrow>
          let d' = d\<lparr>createdAt := now env, updatedAt := now env\<rparr> in
          (Inr d',
           w1\<lparr>resumes := resumes w1 @ [stored d'],
              events := events w1 @ [Saved (stored d')]\<rparr>))"

text \<open>\<open>findOneAndUpdate\<close> (also \<open>findByIdAndUpdate\<close>) changes the first match in the store,
  without validators, and sets \<open>updatedAt\<close>; \<open>findOneAndDelete\<close> removes it.\<close>

definition Resume_findOneAndUpdate ::
  "env \<Rightarrow> (resume \<Rightarrow> bool) \<Rightarrow> (resume \<Rightarrow> resume) \<Rightarrow> world \<Rightarrow> (js_error + resume option) \<times> world" where
  "Resume_findOneAndUpdate env query change w =
     (case attempt w of
        (Some m, w1) \<Rightarrow> (Inl (Failure m), w1)
      | (None, w1) \<Rightarrow>
          (case List.find query (resumes w1) of
             None \<Rightarrow> (Inr None, w1)
           | Some r \<Rightarrow>
               let r' = (change r)\<lparr>updatedAt := now env\<rparr> in
               (Inr (Some r'), w1\<lparr>resumes := replace r' (resumes w1)\<rparr>)))"

definition Resume_findOneAndDelete ::
  "(resume \<Rightarrow> bool) \<Rightarrow> world \<Rightarrow> (js_error + resume option) \<times> world" where
  "Resume_findOneAndDelete query w =
     (case attempt w of
        (Some m, w1) \<Rightarrow> (Inl (Failure m), w1)
      | (None, w1) \<Rightarrow>
          (case List.find query (resumes w1) of
             None \<Rightarrow> (Inr None, w1)
           | Some r \<Rightarrow> (Inr (Some r), w1\<lparr>resumes := remove1 r (resumes w1)\<rparr>)))"

section \<open>middleware/auth.js\<close>

text \<open>\<open>authHeader.split(' ')[1]\<close>: what stands between the first space and the next.\<close>

definition bearer :: "string \<Rightarrow> string option" where
  "bearer h =
     (case dropWhile (\<lambda>c. c \<noteq> CHR '' '') h of
        [] \<Rightarrow> None
      | sp # rest \<Rightarrow> Some (takeWhile (\<lambda>c. c \<noteq> CHR '' '') rest))"

definition authenticateToken :: "env \<Rightarrow> request \<Rightarrow> response + jwt_payload" where
  "authenticateToken env req =
     (case (case authorization req of None \<Rightarrow> None | Some h \<Rightarrow> bearer h) of
        None \<Rightarrow> Inl (rejected 401 ''Token required'' req)
      | Some token \<Rightarrow>
          if token = [] then Inl (rejected 401 ''Token required'' req)
          else (case jwt_verify env token of
                  None \<Rightarrow> Inl (rejected 403 ''Invalid or expired token'' req)
                | Some u \<Rightarrow> Inr u))"

text \<open>\<open>{ free: 5, premium: 100, enterprise: 1000 }[user.subscriptionType] || 5\<close>.\<close>

definition tierLimit :: "subscription \<Rightarrow> int" where
  "tierLimit t = (case t of Free \<Rightarrow> 5 | Premium \<Rightarrow> 100 | Enterprise \<Rightarrow> 1000)"

definition limitFor :: "subscription option \<Rightarrow> int" where
  "limitFor t = (case map_option tierLimit t of None \<Rightarrow> 5 | Some l \<Rightarrow> if l = 0 then 5 else l)"

text \<open>The month test of \<open>checkApiLimit\<close>, on the document in memory.\<close>

definition monthlyReset :: "jsdate \<Rightarrow> api_usage \<Rightarrow> api_usage" where
  "monthlyReset current usage =
     (let reset = lastReset usage in
      if getMonth current \<noteq> getMonth reset \<or> getFullYear current \<noteq> getFullYear reset
      then usage\<lparr>monthly := 0, lastReset := current\<rparr>
      else usage)"

definition limitCheckFailed :: "js_error \<Rightarrow> request \<Rightarrow> response" where
  "limitCheckFailed e req =
     \<lparr>statusCode = 500, success = False, message = Some ''API limit check failed'', data = None,
      error = Some (MessageOf e), res_requestId = requestId req\<rparr>"

text \<open>\<open>checkApiLimit\<close>: \<open>Inr ()\<close> is \<open>next()\<close>. \<open>user.apiUsage.lastReset\<close> throws when the
  user has no \<open>apiUsage\<close>.\<close>

definition checkApiLimit ::
  "env \<Rightarrow> request \<Rightarrow> jwt_payload \<Rightarrow> world \<Rightarrow> (response + unit) \<times> world" where
  "checkApiLimit env req caller w =
     (case User_findById (payload_userId caller) w of
        (Inl e, w1) \<Rightarrow> (Inl (limitCheckFailed e req), w1)
      | (Inr None, w1) \<Rightarrow> (Inl (rejected 404 ''User not found'' req), w1)
      | (Inr (Some user), w1) \<Rightarrow>
          (case apiUsage user of
             None \<Rightarrow> (Inl (limitCheckFailed TypeError req), w1)
           | Some usage \<Rightarrow>
               let usage1 = monthlyReset (now env) usage;
                   limit = limitFor (subscriptionType user)
               in if monthly usage1 \<ge> limit
                  then (Inl (rejected 429 ''Monthly API limit exceeded'' req), w1)
                  else (case User_save env
                               (user\<lparr>apiUsage := Some (usage1\<lparr>monthly := monthly usage1 + 1\<rparr>)\<rparr>) w1 of
                          (Inl e, w2) \<Rightarrow> (Inl (limitCheckFailed e req), w2)
                        | (Inr saved, w2) \<Rightarrow> (Inr (), w2))))"

section \<open>services/googleAI.js\<close>

definition getMockAnalysis :: "env \<Rightarrow> analysis_reply" where
  "getMockAnalysis env =
     \<lparr>reply_score = Some (of_int (\<lfloor>random env 0 * 20\<rfloor> + 75)),
      reply_strengths =
        Some [''Strong technical background'', ''Relevant experience'', ''Good education''],
      reply_weaknesses =
        Some [''Needs more metrics'', ''Missing keywords'', ''Could improve formatting''],
      reply_keywords = Some [''JavaScript'', ''React'', ''Node.js'', ''MongoDB'', ''Express''],
      reply_atsCompatibility = Some (of_int (\<lfloor>random env 1 * 15\<rfloor> + 80)),
      reply_suggestions =
        Some [''Add quantified achievements'', ''Include industry-specific keywords'',
              ''Improve ATS formatting'', ''Use stronger action verbs'']\<rparr>"

definition getMockEnhancement :: "string \<Rightarrow> string \<Rightarrow> string \<Rightarrow> string" where
  "getMockEnhancement resumeText role industry =
     ''[ENHANCED FOR '' @ role @ '' IN '' @ industry @ '']'' @ [CHR 0x0A, CHR 0x0A] @
     resumeText @ [CHR 0x0A, CHR 0x0A] @
     ''[This resume has been optimized with relevant keywords and improved formatting for the ''
     @ role @ '' position in the '' @ industry @ '' industry.]''"

definition getMockJobMatch :: "env \<Rightarrow> match_reply" where
  "getMockJobMatch env =
     \<lparr>reply_matchScore = Some (of_int (\<lfloor>random env 0 * 30\<rfloor> + 65)),
      reply_matchedKeywords = Some [''JavaScript'', ''React'', ''Problem solving'', ''Team work''],
      reply_missingKeywords = Some [''Python'', ''AWS'', ''Docker'', ''Kubernetes''],
      reply_matchSuggestions =
        Some [''Add cloud computing experience'', ''Highlight leadership skills'',
              ''Include specific project metrics'', ''Mention agile methodologies''],
      reply_strengthAreas =
        Some [''Technical skills'', ''Experience level'', ''Education background''],
      reply_improvementAreas =
        Some [''Cloud technologies'', ''Leadership experience'', ''Certifications''],
      reply_salaryNegotiationPoints =
        Some [''Strong technical foundation'', ''Relevant project experience'',
              ''Industry knowledge'']\<rparr>"

text \<open>Each method returns the mock when \<open>useMock\<close> is set and when anything in its \<open>try\<close>
  throws (the call, reading the text, \<open>JSON.parse\<close>).\<close>

definition analyzeResume :: "env \<Rightarrow> string \<Rightarrow> analysis_reply option" where
  "analyzeResume env resumeText =
     (if useMock env then Some (getMockAnalysis env)
      else case generateAnalysis env resumeText of
             Throws m \<Rightarrow> Some (getMockAnalysis env)
           | Returns parsed \<Rightarrow> parsed)"

definition enhanceResume :: "env \<Rightarrow> string \<Rightarrow> string \<Rightarrow> string \<Rightarrow> string" where
  "enhanceResume env resumeText role industry =
     (if useMock env then getMockEnhancement resumeText role industry
      else case generateEnhancement env resumeText role industry of
             Throws m \<Rightarrow> getMockEnhancement resumeText role industry
           | Returns t \<Rightarrow> t)"

definition matchJobDescription ::
  "env \<Rightarrow> string \<Rightarrow> string \<Rightarrow> string \<Rightarrow> string option \<Rightarrow> match_reply option" where
  "matchJobDescription env resumeText job description company =
     (if useMock env then Some (getMockJobMatch env)
      else case generateMatch env resumeText job description
                  (case company of None \<Rightarrow> [] | Some c \<Rightarrow> c) of
             Throws m \<Rightarrow> Some (getMockJobMatch env)
           | Returns parsed \<Rightarrow> parsed)"

section \<open>routes/ai.js\<close>

definition validateResumeId :: "request \<Rightarrow> response + oid" where
  "validateResumeId req =
     (case resumeId req of
        None \<Rightarrow> Inl (rejected 400 ''Invalid resume ID format'' req)
      | Some i \<Rightarrow> Inr i)"

text \<open>\<open>!v || typeof v !== 'string' || v.trim().length === 0\<close> on a field that is absent or
  a string.\<close>

definition blank :: "string option \<Rightarrow> bool" where
  "blank v = (case v of None \<Rightarrow> True | Some s \<Rightarrow> s = [] \<or> trim s = [])"

definition validateEnhanceRequest :: "request \<Rightarrow> response + string \<times> string" where
  "validateEnhanceRequest req =
     (case (body_targetRole req, body_targetIndustry req) of
        (Some role, Some industry) \<Rightarrow>
          if blank (Some role)
          then Inl (rejected 400 ''Target role is required and must be a valid string'' req)
          else if blank (Some industry)
          then Inl (rejected 400 ''Target industry is required and must be a valid string'' req)
          else Inr (trim role, trim industry)
      | (None, i) \<Rightarrow> Inl (rejected 400 ''Target role is required and must be a valid string'' req)
      | (Some role, None) \<Rightarrow>
          if blank (Some role)
          then Inl (rejected 400 ''Target role is required and must be a valid string'' req)
          else Inl (rejected 400 ''Target industry is required and must be a valid string'' req))"

definition validateMatchRequest :: "request \<Rightarrow> response + string \<times> string \<times> string option" where
  "validateMatchRequest req =
     (case (body_jobTitle req, body_jobDescription req) of
        (Some job, Some description) \<Rightarrow>
          if blank (Some job)
          then Inl (rejected 400 ''Job title is required and must be a valid string'' req)
          else if blank (Some description)
          then Inl (rejected 400 ''Job description is required and must be a valid string'' req)
          else Inr (trim job, trim description,
                    (case body_companyName req of
                       None \<Rightarrow> None
                     | Some c \<Rightarrow> if c = [] then Some c else Some (trim c)))
      | (None, d) \<Rightarrow> Inl (rejected 400 ''Job title is required and must be a valid string'' req)
      | (Some job, None) \<Rightarrow>
          if blank (Some job)
          then Inl (rejected 400 ''Job title is required and must be a valid string'' req)
          else Inl (rejected 400 ''Job description is required and must be a valid string'' req))"

text \<open>Assigning the service's object to \<open>resume.analysisResults\<close> casts it to
  \<open>analysisSchema\<close>: an array that is missing becomes \<open>[]\<close>.\<close>

definition orEmpty :: "string list option \<Rightarrow> string list" where
  "orEmpty v = (case v of None \<Rightarrow> [] | Some xs \<Rightarrow> xs)"

definition castAnalysis :: "analysis_reply \<Rightarrow> analysis" where
  "castAnalysis r =
     \<lparr>score = reply_score r, suggestions = orEmpty (reply_suggestions r),
      analysis_keywords = orEmpty (reply_keywords r), strengths = orEmpty (reply_strengths r),
      weaknesses = orEmpty (reply_weaknesses r), atsCompatibility = reply_atsCompatibility r\<rparr>"

definition owned :: "oid \<Rightarrow> jwt_payload \<Rightarrow> resume \<Rightarrow> bool" where
  "owned i caller r = (resume_id r = i \<and> userId r = payload_userId caller)"

text \<open>The \<open>catch\<close> of the analyze route: \<open>Resume.findByIdAndUpdate(req.params.resumeId,
  { status: 'uploaded' })\<close> in a \<open>try\<close> of its own, then the 500.\<close>

definition analyzeFailed :: "env \<Rightarrow> request \<Rightarrow> oid \<Rightarrow> js_error \<Rightarrow> world \<Rightarrow> response \<times> world" where
  "analyzeFailed env req i e w =
     (case Resume_findOneAndUpdate env (\<lambda>r. resume_id r = i) (\<lambda>r. r\<lparr>status := Uploaded\<rparr>) w of
        (outcome, w1) \<Rightarrow> (failed env ''Error analyzing resume'' e req, w1))"

definition analyze :: "env \<Rightarrow> request \<Rightarrow> jwt_payload \<Rightarrow> oid \<Rightarrow> world \<Rightarrow> response \<times> world" where
  "analyze env req caller i w =
     (case Resume_findOne (owned i caller) w of
        (Inl e, w1) \<Rightarrow> analyzeFailed env req i e w1
      | (Inr None, w1) \<Rightarrow> (rejected 404 ''Resume not found'' req, w1)
      | (Inr (Some resume), w1) \<Rightarrow>
          if originalText resume = []
          then (rejected 400 ''Resume has no content to analyze'' req, w1)
          else
            (case Resume_save env (resume\<lparr>status := Analyzing\<rparr>) w1 of
               (Inl e, w2) \<Rightarrow> analyzeFailed env req i e w2
             | (Inr resume1, w2) \<Rightarrow>
                 let w3 = w2\<lparr>events := events w2 @ [Invoked]\<rparr>;
                     results = analyzeResume env (originalText resume1)
                 in (case Resume_save env
                            (resume1\<lparr>analysisResults := map_option castAnalysis results,
                                     status := Analyzed\<rparr>) w3 of
                       (Inl e, w4) \<Rightarrow> analyzeFailed env req i e w4
                     | (Inr resume2, w4) \<Rightarrow>
                         (succeeded ''Resume analyzed successfully''
                            (AnalysisData (resume_id resume2) results) req, w4))))"

definition enhance ::
  "env \<Rightarrow> request \<Rightarrow> jwt_payload \<Rightarrow> oid \<Rightarrow> string \<times> string \<Rightarrow> world \<Rightarrow> response \<times> world" where
  "enhance env req caller i body w =
     (case body of (role, industry) \<Rightarrow>
      (case Resume_findOne (owned i caller) w of
         (Inl e, w1) \<Rightarrow> (failed env ''Error enhancing resume'' e req, w1)
       | (Inr None, w1) \<Rightarrow> (rejected 404 ''Resume not found'' req, w1)
       | (Inr (Some resume), w1) \<Rightarrow>
           if originalText resume = []
           then (rejected 400 ''Resume has no content to enhance'' req, w1)
           else
             let w2 = w1\<lparr>events := events w1 @ [Invoked]\<rparr>;
                 enhanced = enhanceResume env (originalText resume) role industry
             in (case Resume_save env
                        (resume\<lparr>enhancedText := Some enhanced, status := Enhanced,
                                targetRole := Some role, targetIndustry := Some industry\<rparr>) w2 of
                   (Inl e, w3) \<Rightarrow> (failed env ''Error enhancing resume'' e req, w3)
                 | (Inr resume1, w3) \<Rightarrow>
                     (succeeded ''Resume enhanced successfully''
                        (EnhanceData (resume_id resume1) enhanced role industry) req, w3))))"

text \<open>The entry the match route pushes, after the cast to \<open>jobMatchSchema\<close> (\<open>trim\<close> on
  the two names).\<close>

definition jobMatchOf :: "env \<Rightarrow> string \<Rightarrow> string option \<Rightarrow> match_reply \<Rightarrow> job_match" where
  "jobMatchOf env job company results =
     \<lparr>jobTitle = trim job,
      companyName =
        trim (case company of None \<Rightarrow> ''Not specified''
              | Some c \<Rightarrow> if c = [] then ''Not specified'' else c),
      matchScore = (case reply_matchScore results of None \<Rightarrow> 0 | Some x \<Rightarrow> x),
      matchedKeywords = orEmpty (reply_matchedKeywords results),
      match_suggestions = orEmpty (reply_matchSuggestions results),
      strengthAreas = orEmpty (reply_strengthAreas results),
      improvementAreas = orEmpty (reply_improvementAreas results),
      salaryNegotiationPoints = orEmpty (reply_salaryNegotiationPoints results),
      match_createdAt = now env\<rparr>"

definition match ::
  "env \<Rightarrow> request \<Rightarrow> jwt_payload \<Rightarrow> oid \<Rightarrow> string \<times> string \<times> string option \<Rightarrow> world
     \<Rightarrow> response \<times> world" where
  "match env req caller i body w =
     (case body of (job, description, company) \<Rightarrow>
      (case Resume_findOne (owned i caller) w of
         (Inl e, w1) \<Rightarrow> (failed env ''Error matching resume with job'' e req, w1)
       | (Inr None, w1) \<Rightarrow> (rejected 404 ''Resume not found'' req, w1)
       | (Inr (Some resume), w1) \<Rightarrow>
           if originalText resume = []
           then (rejected 400 ''Resume has no content to match'' req, w1)
           else
             let w2 = w1\<lparr>events := events w1 @ [Invoked]\<rparr> in
             (case matchJobDescription env (originalText resume) job description company of
                None \<Rightarrow> (failed env ''Error matching resume with job'' TypeError req, w2)
              | Some results \<Rightarrow>
                  (case Resume_save env
                          (resume\<lparr>jobMatching :=
                                    jobMatching resume @ [jobMatchOf env job company results]\<rparr>) w2 of
                     (Inl e, w3) \<Rightarrow> (failed env ''Error matching resume with job'' e req, w3)
                   | (Inr resume1, w3) \<Rightarrow>
                       (succeeded ''Job matching completed''
                          (MatchData (resume_id resume1) results) req, w3)))))"

definition history :: "env \<Rightarrow> request \<Rightarrow> jwt_payload \<Rightarrow> oid \<Rightarrow> world \<Rightarrow> response \<times> world" where
  "history env req caller i w =
     (case Resume_findOne (owned i caller) w of
        (Inl e, w1) \<Rightarrow> (failed env ''Error retrieving resume history'' e req, w1)
      | (Inr None, w1) \<Rightarrow> (rejected 404 ''Resume not found'' req, w1)
      | (Inr (Some resume), w1) \<Rightarrow>
          (succeeded ''Resume history retrieved successfully''
             (HistoryData (resume_id resume) (status resume) (targetRole resume)
                (targetIndustry resume) (analysisResults resume) (jobMatching resume)
                (updatedAt resume)) req, w1))"

text \<open>The routes: each middleware answers or hands on to the next.\<close>

definition post_analyze :: "env \<Rightarrow> request \<Rightarrow> world \<Rightarrow> response \<times> world" where
  "post_analyze env req w =
     (case validateResumeId req of
        Inl res \<Rightarrow> (res, w)
      | Inr i \<Rightarrow>
          (case authenticateToken env req of
             Inl res \<Rightarrow> (res, w)
           | Inr caller \<Rightarrow>
               (case checkApiLimit env req caller w of
                  (Inl res, w1) \<Rightarrow> (res, w1)
                | (Inr go, w1) \<Rightarrow> analyze env req caller i w1)))"

definition post_enhance :: "env \<Rightarrow> request \<Rightarrow> world \<Rightarrow> response \<times> world" where
  "post_enhance env req w =
     (case validateResumeId req of
        Inl res \<Rightarrow> (res, w)
      | Inr i \<Rightarrow>
          (case validateEnhanceRequest req of
             Inl res \<Rightarrow> (res, w)
           | Inr body \<Rightarrow>
               (case authenticateToken env req of
                  Inl res \<Rightarrow> (res, w)
                | Inr caller \<Rightarrow>
                    (case checkApiLimit env req caller w of
                       (Inl res, w1) \<Rightarrow> (res, w1)
                     | (Inr go, w1) \<Rightarrow> enhance env req caller i body w1))))"

definition post_match :: "env \<Rightarrow> request \<Rightarrow> world \<Rightarrow> response \<times> world" where
  "post_match env req w =
     (case validateResumeId req of
        Inl res \<Rightarrow> (res, w)
      | Inr i \<Rightarrow>
          (case validateMatchRequest req of
             Inl res \<Rightarrow> (res, w)
           | Inr body \<Rightarrow>
               (case authenticateToken env req of
                  Inl res \<Rightarrow> (res, w)
                | Inr caller \<Rightarrow>
                    (case checkApiLimit env req caller w of
                       (Inl res, w1) \<Rightarrow> (res, w1)
                     | (Inr go, w1) \<Rightarrow> match env req caller i body w1))))"

definition get_history :: "env \<Rightarrow> request \<Rightarrow> world \<Rightarrow> response \<times> world" where
  "get_history env req w =
     (case validateResumeId req of
        Inl res \<Rightarrow> (res, w)
      | Inr i \<Rightarrow>
          (case authenticateToken env req of
             Inl res \<Rightarrow> (res, w)
           | Inr caller \<Rightarrow> history env req caller i w))"

section \<open>routes/resume.js\<close>

text \<open>The extraction step of the upload route: the text and the \<open>fileType\<close> it leaves
  (\<open>None\<close> is the initial \<open>''\<close>); \<open>Throws\<close> is its inner \<open>catch\<close>.\<close>

definition extractText :: "env \<Rightarrow> upload_file \<Rightarrow> (string option \<times> file_type option) reply" where
  "extractText env f =
     (if mimetype f = ''application/pdf'' then
        (case pdfParse env (buffer f) of
           Throws m \<Rightarrow> Throws m
         | Returns t \<Rightarrow> Returns (t, Some Pdf))
      else if mimetype f =
                ''application/vnd.openxmlformats-officedocument.wordprocessingml.document'' then
        (case mammoth env (buffer f) of
           Throws m \<Rightarrow> Throws m
         | Returns t \<Rightarrow> Returns (t, Some Docx))
      else if mimetype f = ''text/plain'' then Returns (Some (utf8 env (buffer f)), Some Txt)
      else Returns (Some [], None))"

definition parseFailed :: "env \<Rightarrow> string \<Rightarrow> request \<Rightarrow> response" where
  "parseFailed env m req =
     \<lparr>statusCode = 400, success = False,
      message = Some ''Error parsing file content. Please ensure the file is not corrupted.'',
      data = None,
      error = Some (if development env then MessageOf (Failure m)
                    else Literal ''File parsing failed''),
      res_requestId = requestId req\<rparr>"

text \<open>\<open>new Resume({...})\<close>: \<open>title\<close> is \<open>req.body.title || originalname.split('.')[0]\<close>
  through the schema's \<open>trim\<close>; the other paths take their defaults.\<close>

definition titleFor :: "string option \<Rightarrow> upload_file \<Rightarrow> string" where
  "titleFor given f =
     (case given of
        None \<Rightarrow> takeWhile (\<lambda>c. c \<noteq> CHR ''.'') (originalname f)
      | Some t \<Rightarrow> if t = [] then takeWhile (\<lambda>c. c \<noteq> CHR ''.'') (originalname f) else t)"

definition newResume ::
  "env \<Rightarrow> jwt_payload \<Rightarrow> upload_file \<Rightarrow> string option \<Rightarrow> string \<Rightarrow> file_type \<Rightarrow> resume_document" where
  "newResume env caller f given extractedText kind =
     hydrate
       \<lparr>resume_id = newObjectId env, userId = payload_userId caller,
        title = trim (titleFor given f), originalText = trim extractedText,
        enhancedText = None, fileName = originalname f, fileType = kind,
        analysisResults = None, jobMatching = [], versions = [], status = Uploaded,
        createdAt = now env, updatedAt = now env\<rparr>"

definition uploadResume :: "env \<Rightarrow> request \<Rightarrow> jwt_payload \<Rightarrow> world \<Rightarrow> response \<times> world" where
  "uploadResume env req caller w =
     (case upload req of
        None \<Rightarrow> (rejected 400 ''No file uploaded'' req, w)
      | Some f \<Rightarrow>
          (case extractText env f of
             Throws m \<Rightarrow> (parseFailed env m req, w)
           | Returns (None, kind) \<Rightarrow>
               (rejected 400 ''No text content found in the uploaded file'' req, w)
           | Returns (Some extractedText, kind) \<Rightarrow>
               if extractedText = [] \<or> trim extractedText = []
               then (rejected 400 ''No text content found in the uploaded file'' req, w)
               else
                 (case Resume_findOne
                         (\<lambda>r. userId r = payload_userId caller \<and> fileName r = originalname f) w of
                    (Inl e, w1) \<Rightarrow> (failed env ''Error uploading resume'' e req, w1)
                  | (Inr (Some existing), w1) \<Rightarrow>
                      (rejected 409 ''A resume with this filename already exists'' req, w1)
                  | (Inr None, w1) \<Rightarrow>
                      (case kind of
                         None \<Rightarrow> (failed env ''Error uploading resume'' ValidationError req, w1)
                       | Some k \<Rightarrow>
                           (case Resume_create env
                                   (newResume env caller f (body_title req) extractedText k) w1 of
                              (Inl e, w2) \<Rightarrow> (failed env ''Error uploading resume'' e req, w2)
                            | (Inr resume, w2) \<Rightarrow>
                                (succeeded ''Resume uploaded successfully''
                                   (UploadData (resume_id resume) (title resume)
                                      (take 500 extractedText @
                                         (if length extractedText > 500 then ''...'' else []))
                                      (fileName resume) (fileType resume) (status resume)
                                      (createdAt resume)) req, w2))))))"

definition getResume :: "env \<Rightarrow> request \<Rightarrow> jwt_payload \<Rightarrow> oid \<Rightarrow> world \<Rightarrow> response \<times> world" where
  "getResume env req caller i w =
     (case Resume_findOne (owned i caller) w of
        (Inl e, w1) \<Rightarrow> (failed env ''Error fetching resume'' e req, w1)
      | (Inr None, w1) \<Rightarrow> (rejected 404 ''Resume not found'' req, w1)
      | (Inr (Some resume), w1) \<Rightarrow>
          (succeeded ''Resume retrieved successfully'' (ResumeData (stored resume)) req, w1))"

definition updateTitle :: "env \<Rightarrow> request \<Rightarrow> jwt_payload \<Rightarrow> oid \<Rightarrow> world \<Rightarrow> response \<times> world" where
  "updateTitle env req caller i w =
     (case body_title req of
        None \<Rightarrow> (rejected 400 ''Title is required'' req, w)
      | Some t \<Rightarrow>
          if t = [] \<or> trim t = [] then (rejected 400 ''Title is required'' req, w)
          else
            (case Resume_findOneAndUpdate env (owned i caller) (\<lambda>r. r\<lparr>title := trim t\<rparr>) w of
               (Inl e, w1) \<Rightarrow> (failed env ''Error updating resume title'' e req, w1)
             | (Inr None, w1) \<Rightarrow> (rejected 404 ''Resume not found'' req, w1)
             | (Inr (Some resume), w1) \<Rightarrow>
                 (succeeded ''Resume title updated successfully''
                    (TitleData (resume_id resume) (title resume)) req, w1)))"

definition deleteResume :: "env \<Rightarrow> request \<Rightarrow> jwt_payload \<Rightarrow> oid \<Rightarrow> world \<Rightarrow> response \<times> world" where
  "deleteResume env req caller i w =
     (case Resume_findOneAndDelete (owned i caller) w of
        (Inl e, w1) \<Rightarrow> (failed env ''Error deleting resume'' e req, w1)
      | (Inr None, w1) \<Rightarrow> (rejected 404 ''Resume not found'' req, w1)
      | (Inr (Some resume), w1) \<Rightarrow>
          (succeeded ''Resume deleted successfully''
             (TitleData (resume_id resume) (title resume)) req, w1))"

definition post_upload :: "env \<Rightarrow> request \<Rightarrow> world \<Rightarrow> response \<times> world" where
  "post_upload env req w =
     (case authenticateToken env req of
        Inl res \<Rightarrow> (res, w)
      | Inr caller \<Rightarrow> uploadResume env req caller w)"

definition get_resume :: "env \<Rightarrow> request \<Rightarrow> world \<Rightarrow> response \<times> world" where
  "get_resume env req w =
     (case validateResumeId req of
        Inl res \<Rightarrow> (res, w)
      | Inr i \<Rightarrow>
          (case authenticateToken env req of
             Inl res \<Rightarrow> (res, w)
           | Inr caller \<Rightarrow> getResume env req caller i w))"

definition put_title :: "env \<Rightarrow> request \<Rightarrow> world \<Rightarrow> response \<times> world" where
  "put_title env req w =
     (case validateResumeId req of
        Inl res \<Rightarrow> (res, w)
      | Inr i \<Rightarrow>
          (case authenticateToken env req of
             Inl res \<Rightarrow> (res, w)
           | Inr caller \<Rightarrow> updateTitle env req caller i w))"

definition delete_resume :: "env \<Rightarrow> request \<Rightarrow> world \<Rightarrow> response \<times> world" where
  "delete_resume env req w =
     (case validateResumeId req of
        Inl res \<Rightarrow> (res, w)
      | Inr i \<Rightarrow>
          (case authenticateToken env req of
             Inl res \<Rightarrow> (res, w)
           | Inr caller \<Rightarrow> deleteResume env req caller i w))"

section \<open>routes/auth.js and routes/user.js: what they send of a user\<close>

text \<open>The \<open>user\<close> object of the register and login responses, and their \<open>data\<close>.\<close>

definition authUser :: "user \<Rightarrow> auth_user" where
  "authUser u =
     \<lparr>auth_id = user_id u, auth_name = name u, auth_email = email u,
      auth_subscriptionType = subscriptionType u\<rparr>"

definition authData :: "env \<Rightarrow> user \<Rightarrow> payload" where
  "authData env u =
     AuthData (jwt_sign env \<lparr>payload_userId = user_id u, payload_email = email u\<rparr>) (authUser u)"

text \<open>\<open>GET /me\<close>: \<open>res.json({ success: true, data: { user }, requestId })\<close>; \<open>res.json\<close>
  serialises a document through its \<open>toJSON\<close>.\<close>

definition me :: "env \<Rightarrow> request \<Rightarrow> jwt_payload \<Rightarrow> world \<Rightarrow> response \<times> world" where
  "me env req caller w =
     (case User_findById (payload_userId caller) w of
        (Inl e, w1) \<Rightarrow> (failed env ''Server error'' e req, w1)
      | (Inr None, w1) \<Rightarrow> (rejected 404 ''User not found'' req, w1)
      | (Inr (Some u), w1) \<Rightarrow>
          (\<lparr>statusCode = 200, success = True, message = None, data = Some (UserData (toJSON u)),
            error = None, res_requestId = requestId req\<rparr>, w1))"

definition getProfile :: "env \<Rightarrow> request \<Rightarrow> jwt_payload \<Rightarrow> world \<Rightarrow> response \<times> world" where
  "getProfile env req caller w =
     (case User_findById (payload_userId caller) w of
        (Inl e, w1) \<Rightarrow> (failed env ''Error fetching profile'' e req, w1)
      | (Inr None, w1) \<Rightarrow> (rejected 404 ''User not found'' req, w1)
      | (Inr (Some u), w1) \<Rightarrow>
          (case Resume_countDocuments (\<lambda>r. userId r = payload_userId caller) w1 of
             (Inl e, w2) \<Rightarrow> (failed env ''Error fetching profile'' e req, w2)
           | (Inr n, w2) \<Rightarrow>
               (case Resume_countDocuments
                       (\<lambda>r. userId r = payload_userId caller \<and> status r \<in> set [Analyzed, Enhanced])
                       w2 of
                  (Inl e, w3) \<Rightarrow> (failed env ''Error fetching profile'' e req, w3)
                | (Inr a, w3) \<Rightarrow>
                    (succeeded ''Profile retrieved successfully''
                       (ProfileData (toObject u)
                          \<lparr>totalResumes = n, analyzedResumes = a, stats_apiUsage = apiUsage u\<rparr>)
                       req, w3))))"

text \<open>\<open>PUT /profile\<close>: \<open>updateData\<close> as a change of the stored user. A preference set on a
  user without preferences starts from the schema's defaults.\<close>

definition setPreference :: "(preference \<Rightarrow> preference) \<Rightarrow> user \<Rightarrow> user" where
  "setPreference change u =
     u\<lparr>preferences :=
         Some (change (case preferences u of
                         None \<Rightarrow> \<lparr>theme = Light, language = ''en'', notifications = True\<rparr>
                       | Some p \<Rightarrow> p))\<rparr>"

definition updateData :: "request \<Rightarrow> user \<Rightarrow> user" where
  "updateData req u =
     (let u1 = (case body_name req of
                  None \<Rightarrow> u
                | Some n \<Rightarrow> if n \<noteq> [] \<and> trim n \<noteq> [] then u\<lparr>name := trim n\<rparr> else u)
      in case body_preferences req of
           None \<Rightarrow> u1
         | Some p \<Rightarrow>
             let u2 = (if new_theme p = Some ''light'' then setPreference (\<lambda>x. x\<lparr>theme := Light\<rparr>) u1
                       else if new_theme p = Some ''dark''
                       then setPreference (\<lambda>x. x\<lparr>theme := Dark\<rparr>) u1
                       else u1);
                 u3 = (case new_language p of
                         None \<Rightarrow> u2
                       | Some l \<Rightarrow> if l = [] then u2 else setPreference (\<lambda>x. x\<lparr>language := l\<rparr>) u2)
             in (case new_notifications p of
                   None \<Rightarrow> u3
                 | Some b \<Rightarrow> setPreference (\<lambda>x. x\<lparr>notifications := b\<rparr>) u3))"

definition putProfile :: "env \<Rightarrow> request \<Rightarrow> jwt_payload \<Rightarrow> world \<Rightarrow> response \<times> world" where
  "putProfile env req caller w =
     (case User_findByIdAndUpdate env (payload_userId caller) (updateData req) w of
        (Inl e, w1) \<Rightarrow> (failed env ''Error updating profile'' e req, w1)
      | (Inr None, w1) \<Rightarrow> (rejected 404 ''User not found'' req, w1)
      | (Inr (Some u), w1) \<Rightarrow>
          (succeeded ''Profile updated successfully'' (UserData (toJSON u)) req, w1))"

definition get_me :: "env \<Rightarrow> request \<Rightarrow> world \<Rightarrow> response \<times> world" where
  "get_me env req w =
     (case authenticateToken env req of
        Inl res \<Rightarrow> (res, w)
      | Inr caller \<Rightarrow> me env req caller w)"

definition get_profile :: "env \<Rightarrow> request \<Rightarrow> world \<Rightarrow> response \<times> world" where
  "get_profile env req w =
     (case authenticateToken env req of
        Inl res \<Rightarrow> (res, w)
      | Inr caller \<Rightarrow> getProfile env req caller w)"

definition put_profile :: "env \<Rightarrow> request \<Rightarrow> world \<Rightarrow> response \<times> world" where
  "put_profile env req w =
     (case authenticateToken env req of
        Inl res \<Rightarrow> (res, w)
      | Inr caller \<Rightarrow> putProfile env req caller w)"

section \<open>A small deployment, for evaluating the routes\<close>

definition january :: jsdate where
  "january = \<lparr>getFullYear = 2025, getMonth = 0, timeInMonth = 86400000\<rparr>"

definition february :: jsdate where
  "february = \<lparr>getFullYear = 2025, getMonth = 1, timeInMonth = 3600000\<rparr>"

text \<open>Alice is on the free tier and has used her five calls this month; Bob is on the
  premium tier and was last counted in January.\<close>

definition alice :: user where
  "alice =
     \<lparr>user_id = 1, email = ''alice@example.com'', password = Some ''$2a$12$aliceHash'',
      name = ''Alice'', subscriptionType = Some Free, subscriptionExpiry = None,
      apiUsage = Some \<lparr>monthly = 5, lastReset = february, totalUsage = 0\<rparr>,
      preferences = None, user_createdAt = january, user_updatedAt = february\<rparr>"

definition bob :: user where
  "bob =
     \<lparr>user_id = 2, email = ''bob@example.com'', password = Some ''$2a$12$bobHash'',
      name = ''Bob'', subscriptionType = Some Premium, subscriptionExpiry = None,
      apiUsage = Some \<lparr>monthly = 7, lastReset = january, totalUsage = 0\<rparr>,
      preferences = None, user_createdAt = january, user_updatedAt = january\<rparr>"

definition as_alice :: jwt_payload where
  "as_alice = \<lparr>payload_userId = 1, payload_email = ''alice@example.com''\<rparr>"

definition as_bob :: jwt_payload where
  "as_bob = \<lparr>payload_userId = 2, payload_email = ''bob@example.com''\<rparr>"

text \<open>Bob's resume, uploaded in January.\<close>

definition cv :: resume where
  "cv =
     \<lparr>resume_id = 10, userId = 2, title = ''CV'', originalText = ''Ten years of Node.js'',
      enhancedText = None, fileName = ''cv.txt'', fileType = Txt, analysisResults = None,
      jobMatching = [], versions = [], status = Uploaded, createdAt = january,
      updatedAt = january\<rparr>"

text \<open>A process without a provider key, in February.\<close>

definition offline :: env where
  "offline =
     \<lparr>now = february, development = False, useMock = True, random = (\<lambda>k. 1 / 2),
      generateAnalysis = (\<lambda>t. Throws ''no model''),
      generateEnhancement = (\<lambda>t r i. Throws ''no model''),
      generateMatch = (\<lambda>t j d c. Throws ''no model''),
      pdfParse = (\<lambda>b. Throws ''not a PDF''), mammoth = (\<lambda>b. Throws ''not a DOCX''),
      utf8 = (\<lambda>b. b),
      jwt_verify = (\<lambda>t. if t = ''alice'' then Some as_alice
                         else if t = ''bob'' then Some as_bob else None),
      jwt_sign = (\<lambda>p. if payload_userId p = 1 then ''alice'' else ''bob''),
      newObjectId = 11\<rparr>"

definition deployment :: world where
  "deployment = \<lparr>users = [alice, bob], resumes = [cv], faults = [], events = []\<rparr>"

text \<open>A request with a token, and an upload of a plain-text file.\<close>

definition request_by :: "string \<Rightarrow> request" where
  "request_by token =
     \<lparr>requestId = ''req-1'', authorization = Some (''Bearer '' @ token), resumeId = Some 10,
      upload = None, body_title = None, body_targetRole = None, body_targetIndustry = None,
      body_jobTitle = None, body_jobDescription = None, body_companyName = None,
      body_name = None, body_preferences = None\<rparr>"

definition text_file :: "string \<Rightarrow> string \<Rightarrow> upload_file" where
  "text_file filename bytes =
     \<lparr>mimetype = ''text/plain'', originalname = filename, buffer = bytes\<rparr>"

definition upload_by :: "string \<Rightarrow> upload_file \<Rightarrow> request" where
  "upload_by token f = (request_by token)\<lparr>resumeId := None, upload := Some f\<rparr>"

section \<open>The store operations when they succeed\<close>

lemma attempt_fate: "attempt w = (fate 0 w, later w)"
  by (cases "faults w") (simp_all add: attempt_def fate_def later_def)

lemma fate_later [simp]: "fate k (later w) = fate (Suc k) w"
  by (cases "faults w") (simp_all add: fate_def later_def)

lemma later_fields [simp]:
  "users (later w) = users w" "resumes (later w) = resumes w" "events (later w) = events w"
  by (simp_all add: later_def)

lemma fate_fields [simp]:
  "fate k (w\<lparr>users := us\<rparr>) = fate k w"
  "fate k (w\<lparr>resumes := rs\<rparr>) = fate k w"
  "fate k (w\<lparr>events := es\<rparr>) = fate k w"
  by (simp_all add: fate_def)

lemma fate_no_faults: "faults w = [] \<Longrightarrow> fate k w = None"
  by (simp add: fate_def)

lemma find_holds: "List.find P xs = Some u \<Longrightarrow> P u"
  by (induction xs) (auto split: if_splits)

lemma find_map_update:
  "List.find P xs = Some u \<Longrightarrow> (\<And>x. P x \<Longrightarrow> P (f x)) \<Longrightarrow>
   List.find P (map (\<lambda>x. if P x then f x else x) xs) = Some (f u)"
  by (induction xs) (auto split: if_splits)

lemma filter_map_update:
  "(\<And>x. P x \<Longrightarrow> P (f x)) \<Longrightarrow>
   filter (\<lambda>x. \<not> P x) (map (\<lambda>x. if P x then f x else x) xs) = filter (\<lambda>x. \<not> P x) xs"
  by (induction xs) auto

lemma select_default_fields [simp]:
  "apiUsage (select_default u) = apiUsage u"
  "subscriptionType (select_default u) = subscriptionType u"
  "user_id (select_default u) = user_id u" "password (select_default u) = None"
  "email (select_default u) = email u" "name (select_default u) = name u"
  by (simp_all add: select_default_def)

lemma User_findById_ok:
  "fate 0 w = None \<Longrightarrow>
   User_findById i w =
     (Inr (map_option select_default (List.find (\<lambda>u. user_id u = i) (users w))), later w)"
  by (simp add: User_findById_def attempt_fate)

lemma User_save_ok:
  "user_valid doc \<Longrightarrow> fate 0 w = None \<Longrightarrow>
   User_save env doc w =
     (Inr (doc\<lparr>user_updatedAt := now env\<rparr>),
      (later w)\<lparr>users := map (\<lambda>u. if user_id u = user_id doc
                                 then written u (doc\<lparr>user_updatedAt := now env\<rparr>) else u)
                          (users w)\<rparr>)"
  by (simp add: User_save_def attempt_fate Let_def)

section \<open>The quota gate\<close>


lemma limitFor_pos: "0 < limitFor t"
  by (cases t; simp add: limitFor_def tierLimit_def split: subscription.splits)

lemma written_loaded:
  "written u ((select_default u)\<lparr>apiUsage := a, user_updatedAt := t\<rparr>) =
   u\<lparr>apiUsage := a, user_updatedAt := t\<rparr>"
  by (simp add: written_def select_default_def)

lemma user_valid_loaded: "user_valid u \<Longrightarrow> user_valid ((select_default u)\<lparr>apiUsage := a\<rparr>)"
  by (simp add: user_valid_def select_default_def)

lemma checkApiLimit_reject:
  assumes "List.find (\<lambda>x. user_id x = payload_userId caller) (users w) = Some u"
    and "apiUsage u = Some usage" and "fate 0 w = None"
    and "limitFor (subscriptionType u) \<le> monthly (monthlyReset (now env) usage)"
  shows "checkApiLimit env req caller w =
           (Inl (rejected 429 ''Monthly API limit exceeded'' req), later w)"
  using assms by (simp add: checkApiLimit_def User_findById_ok Let_def)

lemma checkApiLimit_admit:
  assumes found: "List.find (\<lambda>x. user_id x = payload_userId caller) (users w) = Some u"
    and usage: "apiUsage u = Some usage" and valid: "user_valid u"
    and calm: "fate 0 w = None" "fate 1 w = None"
    and below: "monthly (monthlyReset (now env) usage) < limitFor (subscriptionType u)"
  shows "checkApiLimit env req caller w =
    (Inr (),
     (later (later w))\<lparr>users :=
        map (\<lambda>x. if user_id x = payload_userId caller
                 then written x
                        ((select_default u)
                           \<lparr>apiUsage := Some ((monthlyReset (now env) usage)
                               \<lparr>monthly := monthly (monthlyReset (now env) usage) + 1\<rparr>),
                            user_updatedAt := now env\<rparr>)
                 else x) (users w)\<rparr>)"
proof -
  have id: "user_id u = payload_userId caller" using find_holds [OF found] .
  have v: "user_valid ((select_default u)\<lparr>apiUsage := Some ((monthlyReset (now env) usage)
             \<lparr>monthly := monthly (monthlyReset (now env) usage) + 1\<rparr>)\<rparr>)"
    using valid by (rule user_valid_loaded)
  have l: "fate 0 (later w) = None" using calm by simp
  show ?thesis
    using found usage below id
    by (simp add: checkApiLimit_def User_findById_ok [OF calm(1)] Let_def User_save_ok [OF v l])
qed

lemma checkApiLimit_admit_effect:
  assumes found: "List.find (\<lambda>x. user_id x = payload_userId caller) (users w) = Some u"
    and usage: "apiUsage u = Some usage" and valid: "user_valid u"
    and calm: "fate 0 w = None" "fate 1 w = None"
    and below: "monthly (monthlyReset (now env) usage) < limitFor (subscriptionType u)"
  shows "fst (checkApiLimit env req caller w) = Inr () \<and>
        List.find (\<lambda>x. user_id x = payload_userId caller)
            (users (snd (checkApiLimit env req caller w))) =
          Some (u\<lparr>apiUsage := Some ((monthlyReset (now env) usage)
                    \<lparr>monthly := monthly (monthlyReset (now env) usage) + 1\<rparr>),
                  user_updatedAt := now env\<rparr>) \<and>
        filter (\<lambda>x. user_id x \<noteq> payload_userId caller)
            (users (snd (checkApiLimit env req caller w))) =
          filter (\<lambda>x. user_id x \<noteq> payload_userId caller) (users w) \<and>
        resumes (snd (checkApiLimit env req caller w)) = resumes w"
proof -
  let ?P = "\<lambda>x. user_id x = payload_userId caller"
  let ?doc = "(select_default u)\<lparr>apiUsage := Some ((monthlyReset (now env) usage)
                \<lparr>monthly := monthly (monthlyReset (now env) usage) + 1\<rparr>),
              user_updatedAt := now env\<rparr>"
  have keep: "\<And>x. ?P x \<Longrightarrow> ?P (written x ?doc)"
    using find_holds [OF found] by (simp add: written_def)
  show ?thesis
    using checkApiLimit_admit [OF found usage valid calm below]
      find_map_update [of ?P "users w" u "\<lambda>x. written x ?doc", OF found keep]
      filter_map_update [of ?P "\<lambda>x. written x ?doc" "users w", OF keep]
    by (simp add: written_loaded)
qed

lemmas deployment_defs =
  deployment_def alice_def bob_def as_alice_def as_bob_def offline_def cv_def request_by_def
  january_def february_def text_file_def upload_by_def



text \<open>
  C2. When the month or the year of the stored \<open>lastReset\<close> differs from the current one,
  the check sets the counter to 0 and \<open>lastReset\<close> to now before it compares: whatever the
  counter was, the request is let through and the user is stored with a counter of 1 and
  the new \<open>lastReset\<close>. When both are equal the counter is left as it is: the comparison is
  made on the stored counter, and a request that is let through stores that counter plus
  one under the old \<open>lastReset\<close>. The user is stored with an \<open>apiUsage\<close> and passes the
  schema's validators, and the two store operations of the check do not throw.
\<close>

theorem monthly_reset:
  assumes found: "List.find (\<lambda>x. user_id x = payload_userId caller) (users w) = Some u"
    and usage: "apiUsage u = Some usage" and valid: "user_valid u"
    and calm: "fate 0 w = None" "fate 1 w = None"
  shows
   "(getMonth (now env) \<noteq> getMonth (lastReset usage) \<or>
     getFullYear (now env) \<noteq> getFullYear (lastReset usage) \<longrightarrow>
       monthlyReset (now env) usage = usage\<lparr>monthly := 0, lastReset := now env\<rparr> \<and>
       fst (checkApiLimit env req caller w) = Inr () \<and>
       List.find (\<lambda>x. user_id x = payload_userId caller)
           (users (snd (checkApiLimit env req caller w))) =
         Some (u\<lparr>apiUsage := Some (usage\<lparr>monthly := 1, lastReset := now env\<rparr>),
                 user_updatedAt := now env\<rparr>)) \<and>
    (getMonth (now env) = getMonth (lastReset usage) \<and>
     getFullYear (now env) = getFullYear (lastReset usage) \<longrightarrow>
       monthlyReset (now env) usage = usage \<and>
       (limitFor (subscriptionType u) \<le> monthly usage \<longrightarrow>
          fst (checkApiLimit env req caller w) =
            Inl (rejected 429 ''Monthly API limit exceeded'' req) \<and>
          users (snd (checkApiLimit env req caller w)) = users w) \<and>
       (monthly usage < limitFor (subscriptionType u) \<longrightarrow>
          fst (checkApiLimit env req caller w) = Inr () \<and>
          List.find (\<lambda>x. user_id x = payload_userId caller)
              (users (snd (checkApiLimit env req caller w))) =
            Some (u\<lparr>apiUsage := Some (usage\<lparr>monthly := monthly usage + 1\<rparr>),
                    user_updatedAt := now env\<rparr>)))"
proof (intro conjI impI)
  assume new: "getMonth (now env) \<noteq> getMonth (lastReset usage) \<or>
     getFullYear (now env) \<noteq> getFullYear (lastReset usage)"
  then show r: "monthlyReset (now env) usage = usage\<lparr>monthly := 0, lastReset := now env\<rparr>"
    by (auto simp add: monthlyReset_def)
  have below: "monthly (monthlyReset (now env) usage) < limitFor (subscriptionType u)"
    using limitFor_pos [of "subscriptionType u"] by (simp add: r)
  from checkApiLimit_admit_effect [OF found usage valid calm below]
  show "fst (checkApiLimit env req caller w) = Inr ()"
    and "List.find (\<lambda>x. user_id x = payload_userId caller)
           (users (snd (checkApiLimit env req caller w))) =
         Some (u\<lparr>apiUsage := Some (usage\<lparr>monthly := 1, lastReset := now env\<rparr>),
                 user_updatedAt := now env\<rparr>)"
    by (simp_all add: r)
next
  assume same: "getMonth (now env) = getMonth (lastReset usage) \<and>
     getFullYear (now env) = getFullYear (lastReset usage)"
  then show r: "monthlyReset (now env) usage = usage"
    by (simp add: monthlyReset_def)
  {
    assume "limitFor (subscriptionType u) \<le> monthly usage"
    then have "limitFor (subscriptionType u) \<le> monthly (monthlyReset (now env) usage)"
      by (simp add: r)
    from checkApiLimit_reject [OF found usage calm(1) this]
    show "fst (checkApiLimit env req caller w) =
            Inl (rejected 429 ''Monthly API limit exceeded'' req)"
      and "users (snd (checkApiLimit env req caller w)) = users w"
      by simp_all
  }
  {
    assume "monthly usage < limitFor (subscriptionType u)"
    then have "monthly (monthlyReset (now env) usage) < limitFor (subscriptionType u)"
      by (simp add: r)
    from checkApiLimit_admit_effect [OF found usage valid calm this]
    show "fst (checkApiLimit env req caller w) = Inr ()"
      and "List.find (\<lambda>x. user_id x = payload_userId caller)
              (users (snd (checkApiLimit env req caller w))) =
            Some (u\<lparr>apiUsage := Some (usage\<lparr>monthly := monthly usage + 1\<rparr>),
                    user_updatedAt := now env\<rparr>)"
      by (simp_all add: r)
  }
qed

text \<open>Bob was last counted in January with 7 calls: in February he is stored with 1.
  Alice was counted in February: her 5 calls stand and she is refused.\<close>

theorem monthly_reset_witness:
  "monthlyReset february \<lparr>monthly = 7, lastReset = january, totalUsage = 0\<rparr> =
     \<lparr>monthly = 0, lastReset = february, totalUsage = 0\<rparr> \<and>
   List.find (\<lambda>x. user_id x = 2)
       (users (snd (checkApiLimit offline (request_by ''bob'') as_bob deployment))) =
     Some (bob\<lparr>apiUsage := Some \<lparr>monthly = 1, lastReset = february, totalUsage = 0\<rparr>,
               user_updatedAt := february\<rparr>) \<and>
   monthlyReset february \<lparr>monthly = 5, lastReset = february, totalUsage = 0\<rparr> =
     \<lparr>monthly = 5, lastReset = february, totalUsage = 0\<rparr> \<and>
   fst (checkApiLimit offline (request_by ''alice'') as_alice deployment) =
     Inl (rejected 429 ''Monthly API limit exceeded'' (request_by ''alice''))"
proof -
  have a: "List.find (\<lambda>x. user_id x = payload_userId as_alice) (users deployment) = Some alice"
    and b: "List.find (\<lambda>x. user_id x = payload_userId as_bob) (users deployment) = Some bob"
    by (simp_all add: deployment_defs)
  have ua: "apiUsage alice = Some \<lparr>monthly = 5, lastReset = february, totalUsage = 0\<rparr>"
    and ub: "apiUsage bob = Some \<lparr>monthly = 7, lastReset = january, totalUsage = 0\<rparr>"
    by (simp_all add: deployment_defs)
  have v: "user_valid alice" "user_valid bob"
    by (simp_all add: user_valid_def deployment_defs)
  have c: "fate 0 deployment = None" "fate 1 deployment = None"
    by (simp_all add: fate_def deployment_def)
  show ?thesis
    using monthly_reset [OF a ua v(1) c, of offline "request_by ''alice''"]
      monthly_reset [OF b ub v(2) c, of offline "request_by ''bob''"]
    by (simp add: deployment_defs limitFor_def tierLimit_def)
qed

text \<open>
  C10. Whenever the check answers 429, no user document and no resume has changed, and
  the request came in the month and year of the stored \<open>lastReset\<close>: the document in
  memory was not reset either. A reset leaves a counter of 0 and every limit is positive,
  so a request that was reset is never refused.
\<close>

theorem rejection_leaves_user:
  assumes "fst (checkApiLimit env req caller w) = Inl res" and "statusCode res = 429"
  shows "users (snd (checkApiLimit env req caller w)) = users w \<and>
     resumes (snd (checkApiLimit env req caller w)) = resumes w \<and>
     (\<exists>u usage. List.find (\<lambda>x. user_id x = payload_userId caller) (users w) = Some u \<and>
        apiUsage u = Some usage \<and>
        getMonth (now env) = getMonth (lastReset usage) \<and>
        getFullYear (now env) = getFullYear (lastReset usage) \<and>
        monthlyReset (now env) usage = usage \<and>
        0 < limitFor (subscriptionType u) \<and> limitFor (subscriptionType u) \<le> monthly usage)"
proof (cases "fate 0 w")
  case (Some m)
  then show ?thesis using assms
    by (auto simp add: checkApiLimit_def User_findById_def attempt_fate limitCheckFailed_def)
next
  case None
  show ?thesis
  proof (cases "List.find (\<lambda>x. user_id x = payload_userId caller) (users w)")
    case n: None
    then show ?thesis using assms None
      by (auto simp add: checkApiLimit_def User_findById_ok rejected_def)
  next
    case (Some u)
    show ?thesis
    proof (cases "apiUsage u")
      case n: None
      then show ?thesis using assms None Some
        by (auto simp add: checkApiLimit_def User_findById_ok limitCheckFailed_def)
    next
      case u: (Some usage)
      show ?thesis
      proof (cases "limitFor (subscriptionType u) \<le> monthly (monthlyReset (now env) usage)")
        case True
        have pos: "0 < limitFor (subscriptionType u)" by (rule limitFor_pos)
        have same: "getMonth (now env) = getMonth (lastReset usage) \<and>
                    getFullYear (now env) = getFullYear (lastReset usage)"
          using True pos by (auto simp add: monthlyReset_def Let_def split: if_splits)
        then have r: "monthlyReset (now env) usage = usage" by (simp add: monthlyReset_def)
        show ?thesis
          using checkApiLimit_reject [OF Some u None True] Some u same r pos True by simp
      next
        case False
        then show ?thesis using assms None Some u
          by (auto simp add: checkApiLimit_def User_findById_ok Let_def User_save_def attempt_fate
              limitCheckFailed_def split: option.splits if_splits)
      qed
    qed
  qed
qed

text \<open>Alice's refusal in February leaves both users as they were.\<close>

theorem rejection_leaves_user_witness:
  "statusCode (rejected 429 ''Monthly API limit exceeded'' (request_by ''alice'')) = 429 \<and>
   fst (checkApiLimit offline (request_by ''alice'') as_alice deployment) =
     Inl (rejected 429 ''Monthly API limit exceeded'' (request_by ''alice'')) \<and>
   users (snd (checkApiLimit offline (request_by ''alice'') as_alice deployment)) = [alice, bob] \<and>
   resumes (snd (checkApiLimit offline (request_by ''alice'') as_alice deployment)) = [cv]"
proof -
  have r: "fst (checkApiLimit offline (request_by ''alice'') as_alice deployment) =
     Inl (rejected 429 ''Monthly API limit exceeded'' (request_by ''alice''))"
    by (simp add: checkApiLimit_def User_findById_def attempt_def deployment_defs
        select_default_def monthlyReset_def limitFor_def tierLimit_def)
  have s: "statusCode (rejected 429 ''Monthly API limit exceeded'' (request_by ''alice'')) = 429"
    by (simp add: rejected_def)
  show ?thesis
    using rejection_leaves_user [OF r s] r s by (simp add: deployment_def)
qed

section \<open>Documents in memory and the resume collection\<close>

lemma stored_hydrate [simp]: "stored (hydrate r) = r"
  by (simp add: stored_def hydrate_def resume.defs)

lemma hydrate_fields [simp]:
  "resume_id (hydrate r) = resume_id r" "userId (hydrate r) = userId r"
  "title (hydrate r) = title r" "originalText (hydrate r) = originalText r"
  "enhancedText (hydrate r) = enhancedText r" "fileName (hydrate r) = fileName r"
  "fileType (hydrate r) = fileType r" "analysisResults (hydrate r) = analysisResults r"
  "jobMatching (hydrate r) = jobMatching r" "versions (hydrate r) = versions r"
  "status (hydrate r) = status r" "createdAt (hydrate r) = createdAt r"
  "updatedAt (hydrate r) = updatedAt r"
  "targetRole (hydrate r) = None" "targetIndustry (hydrate r) = None"
  by (simp_all add: hydrate_def resume.defs)

lemma stored_fields [simp]:
  "resume_id (stored d) = resume_id d" "userId (stored d) = userId d"
  "title (stored d) = title d" "originalText (stored d) = originalText d"
  "enhancedText (stored d) = enhancedText d" "fileName (stored d) = fileName d"
  "fileType (stored d) = fileType d" "analysisResults (stored d) = analysisResults d"
  "jobMatching (stored d) = jobMatching d" "versions (stored d) = versions d"
  "status (stored d) = status d" "createdAt (stored d) = createdAt d"
  "updatedAt (stored d) = updatedAt d"
  by (simp_all add: stored_def resume.defs)

lemma stored_update [simp]:
  "stored (d\<lparr>status := s\<rparr>) = (stored d)\<lparr>status := s\<rparr>"
  "stored (d\<lparr>updatedAt := t\<rparr>) = (stored d)\<lparr>updatedAt := t\<rparr>"
  "stored (d\<lparr>createdAt := t\<rparr>) = (stored d)\<lparr>createdAt := t\<rparr>"
  "stored (d\<lparr>analysisResults := a\<rparr>) = (stored d)\<lparr>analysisResults := a\<rparr>"
  "stored (d\<lparr>enhancedText := e\<rparr>) = (stored d)\<lparr>enhancedText := e\<rparr>"
  "stored (d\<lparr>jobMatching := j\<rparr>) = (stored d)\<lparr>jobMatching := j\<rparr>"
  "stored (d\<lparr>targetRole := x\<rparr>) = stored d"
  "stored (d\<lparr>targetIndustry := y\<rparr>) = stored d"
  by (simp_all add: stored_def resume.defs)

lemma Resume_findOne_ok:
  "fate 0 w = None \<Longrightarrow>
   Resume_findOne query w = (Inr (map_option hydrate (List.find query (resumes w))), later w)"
  by (simp add: Resume_findOne_def attempt_fate)






section \<open>The upload route\<close>





section \<open>Saving and updating resumes\<close>

lemma find_member: "List.find P xs = Some u \<Longrightarrow> u \<in> set xs"
  by (induction xs) (auto split: if_splits)

lemma find_replace:
  assumes same: "\<And>x. P x \<Longrightarrow> resume_id x = resume_id r'" and holds: "P r'"
    and "\<exists>x\<in>set rs. resume_id x = resume_id r'"
  shows "List.find P (replace r' rs) = Some r'"
  using assms(3)
proof (induction rs)
  case Nil
  then show ?case by simp
next
  case (Cons a rs)
  show ?case
  proof (cases "resume_id a = resume_id r'")
    case True
    then show ?thesis using holds by (simp add: replace_def)
  next
    case False
    then have "\<not> P a" using same by blast
    moreover have "\<exists>x\<in>set rs. resume_id x = resume_id r'"
      using Cons.prems False by auto
    ultimately show ?thesis
      using Cons.IH False by (simp add: replace_def)
  qed
qed

lemma find_owned:
  "List.find (\<lambda>x. resume_id x = i) rs = Some r \<Longrightarrow> userId r = payload_userId caller \<Longrightarrow>
   List.find (owned i caller) rs = Some r"
  by (induction rs) (auto simp add: owned_def split: if_splits)

lemma filter_replace:
  "filter (\<lambda>x. resume_id x \<noteq> resume_id r') (replace r' rs) =
   filter (\<lambda>x. resume_id x \<noteq> resume_id r') rs"
  by (induction rs) (auto simp add: replace_def)

lemma replace_ids: "map resume_id (replace r' rs) = map resume_id rs"
  by (induction rs) (auto simp add: replace_def)


lemma length_replace [simp]: "length (replace r' rs) = length rs"
  by (simp add: replace_def)

lemma hydrate_update [simp]:
  "(hydrate r)\<lparr>status := s\<rparr> = hydrate (r\<lparr>status := s\<rparr>)"
  "(hydrate r)\<lparr>updatedAt := t\<rparr> = hydrate (r\<lparr>updatedAt := t\<rparr>)"
  "(hydrate r)\<lparr>analysisResults := a\<rparr> = hydrate (r\<lparr>analysisResults := a\<rparr>)"
  "(hydrate r)\<lparr>enhancedText := e\<rparr> = hydrate (r\<lparr>enhancedText := e\<rparr>)"
  "(hydrate r)\<lparr>jobMatching := js\<rparr> = hydrate (r\<lparr>jobMatching := js\<rparr>)"
  by (simp_all add: hydrate_def resume.defs)

lemma isModified_later [simp]: "isModified d (later w) = isModified d w"
  by (simp add: isModified_def)

lemma isModified_events [simp]: "isModified d (w\<lparr>events := es\<rparr>) = isModified d w"
  by (simp add: isModified_def)

lemma isModified_resumes [simp]:
  "isModified d (w\<lparr>resumes := rs\<rparr>) =
     (List.find (\<lambda>x. resume_id x = resume_id d) rs \<noteq> Some (stored d))"
  by (simp add: isModified_def)

lemma Resume_save_changed:
  "resume_valid (stored d) \<Longrightarrow> fate 0 w = None \<Longrightarrow> isModified d w \<Longrightarrow>
   Resume_save env d w =
     (Inr (d\<lparr>updatedAt := now env\<rparr>),
      (later w)\<lparr>resumes := replace ((stored d)\<lparr>updatedAt := now env\<rparr>) (resumes w),
               events := events w @ [Saved ((stored d)\<lparr>updatedAt := now env\<rparr>)]\<rparr>)"
  by (simp add: Resume_save_def attempt_fate Let_def)

lemma Resume_save_same:
  "resume_valid (stored d) \<Longrightarrow> fate 0 w = None \<Longrightarrow> \<not> isModified d w \<Longrightarrow>
   Resume_save env d w = (Inr d, (later w)\<lparr>events := events w @ [Saved (stored d)]\<rparr>)"
  by (simp add: Resume_save_def attempt_fate Let_def)



lemma Resume_findOneAndUpdate_ok:
  "fate 0 w = None \<Longrightarrow> List.find query (resumes w) = Some r \<Longrightarrow>
   Resume_findOneAndUpdate env query change w =
     (Inr (Some ((change r)\<lparr>updatedAt := now env\<rparr>)),
      (later w)\<lparr>resumes := replace ((change r)\<lparr>updatedAt := now env\<rparr>) (resumes w)\<rparr>)"
  by (simp add: Resume_findOneAndUpdate_def attempt_fate Let_def)

lemma resume_valid_status [simp]: "resume_valid (r\<lparr>status := s\<rparr>) = resume_valid r"
  by (simp add: resume_valid_def)

lemma resume_valid_updatedAt [simp]: "resume_valid (r\<lparr>updatedAt := t\<rparr>) = resume_valid r"
  by (simp add: resume_valid_def)

lemma resume_valid_analysis:
  "resume_valid r \<Longrightarrow>
   resume_valid (r\<lparr>analysisResults := a\<rparr>) = (case a of None \<Rightarrow> True | Some x \<Rightarrow> analysis_valid x)"
  by (simp add: resume_valid_def)



section \<open>The analyze route\<close>


lemma analyzeFailed_response:
  "fst (analyzeFailed env req i e w) = failed env ''Error analyzing resume'' e req"
  by (simp add: analyzeFailed_def split: prod.splits)



lemma analyzeFailed_ok:
  "fate 0 w = None \<Longrightarrow> List.find (\<lambda>r. resume_id r = i) (resumes w) = Some r \<Longrightarrow>
   resumes (snd (analyzeFailed env req i e w)) =
     replace (r\<lparr>status := Uploaded, updatedAt := now env\<rparr>) (resumes w)"
  by (simp add: analyzeFailed_def Resume_findOneAndUpdate_ok)




section \<open>The enhance route\<close>

lemma resume_valid_enhancedText [simp]:
  "resume_valid (r\<lparr>enhancedText := e\<rparr>) = resume_valid r"
  by (simp add: resume_valid_def)

text \<open>\<open>save()\<close> of a document that was loaded from the record with its id.\<close>

lemma Resume_save_loaded:
  assumes byid: "List.find (\<lambda>x. resume_id x = resume_id d) (resumes w) = Some r"
    and valid: "resume_valid (stored d)" and calm: "fate 0 w = None"
  shows "Resume_save env d w =
    (if stored d = r
     then (Inr d, (later w)\<lparr>events := events w @ [Saved r]\<rparr>)
     else (Inr (d\<lparr>updatedAt := now env\<rparr>),
           (later w)\<lparr>resumes := replace ((stored d)\<lparr>updatedAt := now env\<rparr>) (resumes w),
                    events := events w @ [Saved ((stored d)\<lparr>updatedAt := now env\<rparr>)]\<rparr>))"
proof (cases "stored d = r")
  case True
  then have m: "\<not> isModified d w" using byid by (simp add: isModified_def)
  show ?thesis unfolding Resume_save_same [OF valid calm m] using True by simp
next
  case False
  then have m: "isModified d w" using byid by (auto simp add: isModified_def)
  show ?thesis unfolding Resume_save_changed [OF valid calm m] using False by simp
qed

text \<open>
  A successful enhance call on a record the caller owns, with text, whatever its status:
  the record is stored with the enhanced text and status \<open>enhanced\<close>, and no other record
  changes; its \<open>updatedAt\<close> is the time of the save, unless it held this text and status
  already. The target role and industry are in the answer but not in the store: the
  history route, asked next, finds neither. The stored record passes the schema's
  validators and the store operations do not throw.
\<close>

theorem enhance_persists:
  assumes byid: "List.find (\<lambda>x. resume_id x = i) (resumes w) = Some r"
    and own: "userId r = payload_userId caller"
    and content: "originalText r \<noteq> []" and valid: "resume_valid r"
    and calm: "fate 0 w = None" "fate 1 w = None" "fate 2 w = None"
  shows
   "fst (enhance env req caller i (role, industry) w) =
      succeeded ''Resume enhanced successfully''
        (EnhanceData i (enhanceResume env (originalText r) role industry) role industry) req \<and>
    List.find (\<lambda>x. resume_id x = i)
        (resumes (snd (enhance env req caller i (role, industry) w))) =
      Some (r\<lparr>enhancedText := Some (enhanceResume env (originalText r) role industry),
              status := Enhanced,
              updatedAt :=
                (if enhancedText r = Some (enhanceResume env (originalText r) role industry) \<and>
                    status r = Enhanced
                 then updatedAt r else now env)\<rparr>) \<and>
    filter (\<lambda>x. resume_id x \<noteq> i) (resumes (snd (enhance env req caller i (role, industry) w))) =
      filter (\<lambda>x. resume_id x \<noteq> i) (resumes w) \<and>
    fst (history env req caller i (snd (enhance env req caller i (role, industry) w))) =
      succeeded ''Resume history retrieved successfully''
        (HistoryData i Enhanced None None (analysisResults r) (jobMatching r)
           (if enhancedText r = Some (enhanceResume env (originalText r) role industry) \<and>
               status r = Enhanced
            then updatedAt r else now env)) req"
proof -
  let ?e = "enhanceResume env (originalText r) role industry"
  define same where "same \<longleftrightarrow> enhancedText r = Some ?e \<and> status r = Enhanced"
  let ?r1 = "r\<lparr>enhancedText := Some ?e, status := Enhanced,
                updatedAt := (if same then updatedAt r else now env)\<rparr>"
  let ?rs1 = "if same then resumes w
              else replace (r\<lparr>enhancedText := Some ?e, status := Enhanced,
                              updatedAt := now env\<rparr>) (resumes w)"
  let ?d = "(hydrate (r\<lparr>enhancedText := Some ?e, status := Enhanced\<rparr>))
              \<lparr>targetRole := Some role, targetIndustry := Some industry\<rparr>"
  let ?w2 = "(later w)\<lparr>events := events w @ [Invoked]\<rparr>"
  let ?w3 = "(later ?w2)\<lparr>resumes := ?rs1, events := events w @ [Invoked, Saved ?r1]\<rparr>"
  have id: "resume_id r = i" using find_holds [OF byid] .
  have ex: "\<exists>x\<in>set (resumes w). resume_id x = i"
    using find_member [OF byid] id by blast
  have st: "stored ?d = r\<lparr>enhancedText := Some ?e, status := Enhanced\<rparr>" by simp
  have v: "resume_valid (stored ?d)" using valid by (simp add: resume_valid_def)
  have c: "fate 0 ?w2 = None" using calm by simp
  have b: "List.find (\<lambda>x. resume_id x = resume_id ?d) (resumes ?w2) = Some r"
    using byid id by simp
  have unchanged: "(stored ?d = r) = same"
  proof
    assume "stored ?d = r"
    then have "r\<lparr>enhancedText := Some ?e, status := Enhanced\<rparr> = r" by simp
    then have "enhancedText (r\<lparr>enhancedText := Some ?e, status := Enhanced\<rparr>) = enhancedText r"
      and "status (r\<lparr>enhancedText := Some ?e, status := Enhanced\<rparr>) = status r"
      by simp_all
    then show same by (simp add: same_def)
  next
    assume same
    then show "stored ?d = r" by (simp add: same_def)
  qed
  have saved: "Resume_save env ?d ?w2 =
      (Inr (?d\<lparr>updatedAt := (if same then updatedAt r else now env)\<rparr>), ?w3)"
  proof (cases same)
    case True
    then have s: "stored ?d = r" using unchanged by simp
    have r1: "r\<lparr>enhancedText := Some ?e, status := Enhanced\<rparr> = r"
      using True by (simp add: same_def)
    show ?thesis
      unfolding Resume_save_loaded [OF b v c] using s True r1 by simp
  next
    case False
    then have s: "stored ?d \<noteq> r" using unchanged by simp
    show ?thesis
      unfolding Resume_save_loaded [OF b v c] using s False by simp
  qed
  have run: "enhance env req caller i (role, industry) w =
      (succeeded ''Resume enhanced successfully'' (EnhanceData i ?e role industry) req, ?w3)"
    using content id
    by (simp add: enhance_def Resume_findOne_ok [OF calm(1)] find_owned [OF byid own] Let_def saved)
  have byid1: "List.find (\<lambda>x. resume_id x = i) ?rs1 = Some ?r1"
  proof (cases same)
    case True
    then have "r\<lparr>enhancedText := Some ?e, status := Enhanced\<rparr> = r"
      by (simp add: same_def)
    then show ?thesis using True byid by simp
  next
    case False
    then show ?thesis
      using find_replace [of "\<lambda>x. resume_id x = i"
          "r\<lparr>enhancedText := Some ?e, status := Enhanced, updatedAt := now env\<rparr>" "resumes w"]
        ex id
      by simp
  qed
  have owned1: "List.find (owned i caller) ?rs1 = Some ?r1"
    using find_owned [OF byid1, of caller] own by simp
  have others: "filter (\<lambda>x. resume_id x \<noteq> i) ?rs1 = filter (\<lambda>x. resume_id x \<noteq> i) (resumes w)"
    using filter_replace [of "r\<lparr>enhancedText := Some ?e, status := Enhanced,
                              updatedAt := now env\<rparr>" "resumes w"] id
    by simp
  have c2: "fate 0 ?w3 = None"
    using calm by (simp add: numeral_2_eq_2)
  have o3: "List.find (owned i caller) (resumes ?w3) = Some ?r1" using owned1 by simp
  have hist: "fst (history env req caller i ?w3) =
      succeeded ''Resume history retrieved successfully''
        (HistoryData i Enhanced None None (analysisResults r) (jobMatching r)
           (if same then updatedAt r else now env)) req"
    unfolding history_def Resume_findOne_ok [OF c2] o3 using id by simp
  have rs3: "resumes ?w3 = ?rs1" by simp
  have "fst (enhance env req caller i (role, industry) w) =
      succeeded ''Resume enhanced successfully'' (EnhanceData i ?e role industry) req"
    unfolding run by simp
  moreover have "List.find (\<lambda>x. resume_id x = i)
        (resumes (snd (enhance env req caller i (role, industry) w))) = Some ?r1"
    unfolding run snd_conv rs3 using byid1 .
  moreover have "filter (\<lambda>x. resume_id x \<noteq> i)
        (resumes (snd (enhance env req caller i (role, industry) w))) =
      filter (\<lambda>x. resume_id x \<noteq> i) (resumes w)"
    unfolding run snd_conv rs3 using others .
  moreover have "fst (history env req caller i (snd (enhance env req caller i (role, industry) w))) =
      succeeded ''Resume history retrieved successfully''
        (HistoryData i Enhanced None None (analysisResults r) (jobMatching r)
           (if same then updatedAt r else now env)) req"
    unfolding run snd_conv using hist .
  ultimately show ?thesis unfolding same_def by blast
qed

text \<open>Bob's resume, left \<open>analyzing\<close>, is enhanced by the process without a key; enhanced a
  second time for the same role, it keeps the time of the first save.\<close>

theorem enhance_persists_witness:
  "List.find (\<lambda>x. resume_id x = 10)
     (resumes (snd (enhance offline (request_by ''bob'') as_bob 10 (''Engineer'', ''Software'')
                      (deployment\<lparr>resumes := [cv\<lparr>status := Analyzing\<rparr>]\<rparr>)))) =
     Some (cv\<lparr>enhancedText :=
                 Some (getMockEnhancement ''Ten years of Node.js'' ''Engineer'' ''Software''),
               status := Enhanced, updatedAt := february\<rparr>) \<and>
   List.find (\<lambda>x. resume_id x = 10)
     (resumes (snd (enhance offline (request_by ''bob'') as_bob 10 (''Engineer'', ''Software'')
        (deployment\<lparr>resumes :=
           [cv\<lparr>enhancedText :=
                  Some (getMockEnhancement ''Ten years of Node.js'' ''Engineer'' ''Software''),
                status := Enhanced\<rparr>]\<rparr>)))) =
     Some (cv\<lparr>enhancedText :=
                 Some (getMockEnhancement ''Ten years of Node.js'' ''Engineer'' ''Software''),
               status := Enhanced, updatedAt := january\<rparr>)"
proof -
  let ?e = "getMockEnhancement ''Ten years of Node.js'' ''Engineer'' ''Software''"
  let ?w = "deployment\<lparr>resumes := [cv\<lparr>status := Analyzing\<rparr>]\<rparr>"
  let ?v = "deployment\<lparr>resumes := [cv\<lparr>enhancedText := Some ?e, status := Enhanced\<rparr>]\<rparr>"
  have byid: "List.find (\<lambda>x. resume_id x = 10) (resumes ?w) = Some (cv\<lparr>status := Analyzing\<rparr>)"
    "List.find (\<lambda>x. resume_id x = 10) (resumes ?v) =
       Some (cv\<lparr>enhancedText := Some ?e, status := Enhanced\<rparr>)"
    by (simp_all add: cv_def)
  have own: "userId (cv\<lparr>status := Analyzing\<rparr>) = payload_userId as_bob"
    "userId (cv\<lparr>enhancedText := Some ?e, status := Enhanced\<rparr>) = payload_userId as_bob"
    by (simp_all add: cv_def as_bob_def)
  have content: "originalText (cv\<lparr>status := Analyzing\<rparr>) \<noteq> []"
    "originalText (cv\<lparr>enhancedText := Some ?e, status := Enhanced\<rparr>) \<noteq> []"
    by (simp_all add: cv_def)
  have valid: "resume_valid (cv\<lparr>status := Analyzing\<rparr>)"
    "resume_valid (cv\<lparr>enhancedText := Some ?e, status := Enhanced\<rparr>)"
    by (simp_all add: resume_valid_def cv_def)
  have calm: "fate 0 ?w = None" "fate 1 ?w = None" "fate 2 ?w = None"
    "fate 0 ?v = None" "fate 1 ?v = None" "fate 2 ?v = None"
    by (simp_all add: fate_def deployment_def)
  have mock: "enhanceResume offline (originalText cv) ''Engineer'' ''Software'' = ?e"
    by (simp add: enhanceResume_def offline_def cv_def)
  have clock: "now offline = february" and before: "updatedAt cv = january"
    and fresh: "enhancedText cv = None"
    by (simp_all add: offline_def cv_def)
  show ?thesis
    using enhance_persists [OF byid(1) own(1) content(1) valid(1) calm(1,2,3),
        of offline "request_by ''bob''" "''Engineer''" "''Software''"]
      enhance_persists [OF byid(2) own(2) content(2) valid(2) calm(4,5,6),
        of offline "request_by ''bob''" "''Engineer''" "''Software''"]
    by (simp add: mock clock before fresh)
qed

text \<open>
  C5, at Bob's request to enhance his resume for the role Engineer in the industry
  Software: the answer is a success, the record is stored with the enhanced text and status
  \<open>enhanced\<close>, and the history route then reports no target role and no target industry.
  The route assigns \<open>resume.targetRole\<close> and \<open>resume.targetIndustry\<close>, and the history and list
  routes read them, but \<open>resumeSchema\<close> declares neither path, so \<open>save()\<close> does not write
  them.
\<close>

theorem enhance_loses_target:
  "fst (enhance offline (request_by ''bob'') as_bob 10 (''Engineer'', ''Software'') deployment) =
     succeeded ''Resume enhanced successfully''
       (EnhanceData 10 (getMockEnhancement ''Ten years of Node.js'' ''Engineer'' ''Software'')
          ''Engineer'' ''Software'')
       (request_by ''bob'') \<and>
   resumes (snd (enhance offline (request_by ''bob'') as_bob 10 (''Engineer'', ''Software'')
                   deployment)) =
     [cv\<lparr>enhancedText :=
            Some (getMockEnhancement ''Ten years of Node.js'' ''Engineer'' ''Software''),
          status := Enhanced, updatedAt := february\<rparr>] \<and>
   fst (history offline (request_by ''bob'') as_bob 10
          (snd (enhance offline (request_by ''bob'') as_bob 10 (''Engineer'', ''Software'')
                  deployment))) =
     succeeded ''Resume history retrieved successfully''
       (HistoryData 10 Enhanced None None None [] february) (request_by ''bob'')"
  by (simp add: enhance_def history_def Resume_findOne_def Resume_save_def isModified_def
      attempt_def resume_valid_def enhanceResume_def replace_def owned_def Let_def
      deployment_def cv_def as_bob_def offline_def)

section \<open>The match route\<close>

lemma succeeded_success [simp]: "success (succeeded msg d req)"
  by (simp add: succeeded_def)

lemma not_success [simp]:
  "\<not> success (rejected code msg req)" "\<not> success (failed env msg e req)"
  by (simp_all add: rejected_def failed_def)

lemma Resume_findOne_fault:
  "fate 0 w = Some m \<Longrightarrow> Resume_findOne query w = (Inl (Failure m), later w)"
  by (simp add: Resume_findOne_def attempt_fate)






section \<open>The fallback of the generation service\<close>










section \<open>What the routes send of a user\<close>

lemma select_default_idem [simp]: "select_default (select_default u) = select_default u"
  by (simp add: select_default_def)

lemma find_select_default:
  "List.find (\<lambda>u. user_id u = i) (map select_default us) =
   map_option select_default (List.find (\<lambda>u. user_id u = i) us)"
  by (induction us) simp_all

lemma later_users: "later (w\<lparr>users := us\<rparr>) = (later w)\<lparr>users := us\<rparr>"
  by (simp add: later_def)

lemma User_findById_fault:
  "fate 0 w = Some m \<Longrightarrow> User_findById i w = (Inl (Failure m), later w)"
  by (simp add: User_findById_def attempt_fate)

lemma Resume_countDocuments_users:
  "fst (Resume_countDocuments query (w\<lparr>users := us\<rparr>)) = fst (Resume_countDocuments query w) \<and>
   snd (Resume_countDocuments query (w\<lparr>users := us\<rparr>)) =
     (snd (Resume_countDocuments query w))\<lparr>users := us\<rparr>"
  by (cases "fate 0 w") (simp_all add: Resume_countDocuments_def attempt_fate later_users)

lemma me_blind:
  "fst (me env req caller (w\<lparr>users := map select_default (users w)\<rparr>)) = fst (me env req caller w)"
proof (cases "fate 0 w")
  case None
  then show ?thesis
    by (cases "List.find (\<lambda>u. user_id u = payload_userId caller) (users w)")
       (simp_all add: me_def User_findById_ok find_select_default)
next
  case (Some m)
  then show ?thesis by (simp add: me_def User_findById_fault)
qed

lemma Resume_countDocuments_ok:
  "fate 0 w = None \<Longrightarrow>
   Resume_countDocuments query w = (Inr (length (filter query (resumes w))), later w)"
  by (simp add: Resume_countDocuments_def attempt_fate)

lemma Resume_countDocuments_fault:
  "fate 0 w = Some m \<Longrightarrow> Resume_countDocuments query w = (Inl (Failure m), later w)"
  by (simp add: Resume_countDocuments_def attempt_fate)

lemma getProfile_blind:
  "fst (getProfile env req caller (w\<lparr>users := map select_default (users w)\<rparr>)) =
   fst (getProfile env req caller w)"
  by (cases "fate 0 w"; cases "fate (Suc 0) w"; cases "fate (Suc (Suc 0)) w";
      cases "List.find (\<lambda>u. user_id u = payload_userId caller) (users w)")
     (simp_all add: getProfile_def User_findById_ok User_findById_fault
        Resume_countDocuments_ok Resume_countDocuments_fault find_select_default later_users
        toObject_def)

lemma updateData_select:
  "select_default (updateData req u) = updateData req (select_default u)"
  by (simp add: updateData_def Let_def setPreference_def select_default_def
      split: option.splits)

lemma User_findByIdAndUpdate_ok:
  "fate 0 w = None \<Longrightarrow>
   fst (User_findByIdAndUpdate env i change w) =
     Inr (map_option (\<lambda>u. select_default ((change u)\<lparr>user_updatedAt := now env\<rparr>))
            (List.find (\<lambda>u. user_id u = i) (users w)))"
  by (cases "List.find (\<lambda>u. user_id u = i) (users w)")
     (simp_all add: User_findByIdAndUpdate_def attempt_fate Let_def)

lemma User_findByIdAndUpdate_fault:
  "fate 0 w = Some m \<Longrightarrow> fst (User_findByIdAndUpdate env i change w) = Inl (Failure m)"
  by (simp add: User_findByIdAndUpdate_def attempt_fate)

lemma putProfile_answer:
  "fst (putProfile env req caller w) =
     (case fst (User_findByIdAndUpdate env (payload_userId caller) (updateData req) w) of
        Inl e \<Rightarrow> failed env ''Error updating profile'' e req
      | Inr None \<Rightarrow> rejected 404 ''User not found'' req
      | Inr (Some u) \<Rightarrow> succeeded ''Profile updated successfully'' (UserData (toJSON u)) req)"
  by (simp add: putProfile_def split: prod.splits sum.splits option.splits)

lemma select_default_updatedAt:
  "select_default ((select_default y)\<lparr>user_updatedAt := t\<rparr>) =
   select_default (y\<lparr>user_updatedAt := t\<rparr>)"
  by (simp add: select_default_def)

lemma putProfile_blind:
  "fst (putProfile env req caller (w\<lparr>users := map select_default (users w)\<rparr>)) =
   fst (putProfile env req caller w)"
proof (cases "fate 0 w")
  case None
  then have n: "fate 0 (w\<lparr>users := map select_default (users w)\<rparr>) = None" by simp
  show ?thesis
    unfolding putProfile_answer User_findByIdAndUpdate_ok [OF n] User_findByIdAndUpdate_ok [OF None]
    by (cases "List.find (\<lambda>u. user_id u = payload_userId caller) (users w)")
       (simp_all add: find_select_default updateData_select [symmetric] select_default_updatedAt)
next
  case (Some m)
  then have n: "fate 0 (w\<lparr>users := map select_default (users w)\<rparr>) = Some m" by simp
  show ?thesis
    unfolding putProfile_answer User_findByIdAndUpdate_fault [OF n]
      User_findByIdAndUpdate_fault [OF Some] by simp
qed

lemma blind_to_hashes:
  assumes blind: "\<And>w. fst (h (w\<lparr>users := map select_default (users w)\<rparr>)) = fst (h w)"
    and same: "map select_default us = map select_default (users w)"
  shows "fst (h (w\<lparr>users := us\<rparr>)) = fst (h (w :: world))"
proof -
  have "fst (h (w\<lparr>users := us\<rparr>)) = fst (h (w\<lparr>users := us\<rparr>\<lparr>users := map select_default us\<rparr>))"
    using blind [of "w\<lparr>users := us\<rparr>"] by simp
  also have "\<dots> = fst (h (w\<lparr>users := map select_default (users w)\<rparr>))"
    using same by simp
  also have "\<dots> = fst (h w)" by (rule blind)
  finally show ?thesis .
qed

lemma me_payload:
  "data (fst (me env req caller w)) = Some (UserData x) \<Longrightarrow> password x = None"
  by (cases "fate 0 w"; cases "List.find (\<lambda>u. user_id u = payload_userId caller) (users w)")
     (auto simp add: me_def User_findById_ok User_findById_fault toJSON_def toObject_def
        failed_def rejected_def)

lemma getProfile_payload:
  "data (fst (getProfile env req caller w)) = Some (ProfileData x s) \<Longrightarrow> password x = None"
  by (cases "fate 0 w"; cases "fate (Suc 0) w"; cases "fate (Suc (Suc 0)) w";
      cases "List.find (\<lambda>u. user_id u = payload_userId caller) (users w)")
     (auto simp add: getProfile_def User_findById_ok User_findById_fault
        Resume_countDocuments_ok Resume_countDocuments_fault toObject_def
        failed_def rejected_def succeeded_def)

lemma putProfile_payload:
  "data (fst (putProfile env req caller w)) = Some (UserData x) \<Longrightarrow> password x = None"
  unfolding putProfile_answer
  by (cases "fate 0 w"; cases "List.find (\<lambda>u. user_id u = payload_userId caller) (users w)")
     (auto simp add: User_findByIdAndUpdate_ok User_findByIdAndUpdate_fault toJSON_def toObject_def
        failed_def rejected_def succeeded_def)

lemma User_findById_password:
  "fst (User_findById i w) = Inr (Some x) \<Longrightarrow> password x = None"
  by (cases "fate 0 w") (auto simp add: User_findById_ok User_findById_fault)

text \<open>
  C8. The hashed password is in nothing the routes send of a user. \<open>toJSON\<close> removes it
  from any document, and a query leaves it out: what \<open>User.findById\<close> returns has no
  password, so the profile route, which sends \<open>toObject()\<close>, sends none either. Two
  deployments whose users differ only in their stored hashes get the same answer from
  \<open>GET /me\<close>, \<open>GET /profile\<close> and \<open>PUT /profile\<close>; the \<open>data\<close> of the register and login
  answers is made of the id, the name, the email and the subscription type, and does not
  depend on the hash.
\<close>

theorem password_never_sent:
  assumes same: "map select_default us = map select_default (users w)"
  shows
   "password (toJSON u) = None \<and>
    toJSON (u\<lparr>password := p\<rparr>) = toJSON (u\<lparr>password := q\<rparr>) \<and>
    authData env (u\<lparr>password := p\<rparr>) = authData env (u\<lparr>password := q\<rparr>) \<and>
    (\<forall>i x. fst (User_findById i w) = Inr (Some x) \<longrightarrow> password x = None) \<and>
    fst (get_me env req (w\<lparr>users := us\<rparr>)) = fst (get_me env req w) \<and>
    fst (get_profile env req (w\<lparr>users := us\<rparr>)) = fst (get_profile env req w) \<and>
    fst (put_profile env req (w\<lparr>users := us\<rparr>)) = fst (put_profile env req w) \<and>
    (\<forall>x. data (fst (get_me env req w)) = Some (UserData x) \<longrightarrow> password x = None) \<and>
    (\<forall>x s. data (fst (get_profile env req w)) = Some (ProfileData x s) \<longrightarrow> password x = None) \<and>
    (\<forall>x. data (fst (put_profile env req w)) = Some (UserData x) \<longrightarrow> password x = None)"
proof -
  have json: "password (toJSON u) = None"
    "toJSON (u\<lparr>password := p\<rparr>) = toJSON (u\<lparr>password := q\<rparr>)"
    "authData env (u\<lparr>password := p\<rparr>) = authData env (u\<lparr>password := q\<rparr>)"
    by (simp_all add: toJSON_def toObject_def authData_def authUser_def)
  have query: "\<forall>i x. fst (User_findById i w) = Inr (Some x) \<longrightarrow> password x = None"
    using User_findById_password by blast
  have routes:
    "fst (get_me env req (w\<lparr>users := us\<rparr>)) = fst (get_me env req w)"
    "fst (get_profile env req (w\<lparr>users := us\<rparr>)) = fst (get_profile env req w)"
    "fst (put_profile env req (w\<lparr>users := us\<rparr>)) = fst (put_profile env req w)"
    using blind_to_hashes [of "me env req c" us w for c, OF me_blind same]
      blind_to_hashes [of "getProfile env req c" us w for c, OF getProfile_blind same]
      blind_to_hashes [of "putProfile env req c" us w for c, OF putProfile_blind same]
    by (simp_all add: get_me_def get_profile_def put_profile_def split: sum.splits)
  have sent:
    "\<forall>x. data (fst (get_me env req w)) = Some (UserData x) \<longrightarrow> password x = None"
    "\<forall>x s. data (fst (get_profile env req w)) = Some (ProfileData x s) \<longrightarrow> password x = None"
    "\<forall>x. data (fst (put_profile env req w)) = Some (UserData x) \<longrightarrow> password x = None"
    using me_payload getProfile_payload putProfile_payload
    by (auto simp add: get_me_def get_profile_def put_profile_def authenticateToken_def
        rejected_def split: sum.splits option.splits if_splits)
  show ?thesis using json query routes sent by blast
qed

text \<open>Alice with another hash gets the same answers, and \<open>GET /me\<close> sends her document
  without the password.\<close>

theorem password_never_sent_witness:
  "fst (get_me offline (request_by ''alice'')
          (deployment\<lparr>users := [alice\<lparr>password := Some ''$2a$12$another''\<rparr>, bob]\<rparr>)) =
     fst (get_me offline (request_by ''alice'') deployment) \<and>
   fst (get_profile offline (request_by ''alice'')
          (deployment\<lparr>users := [alice\<lparr>password := Some ''$2a$12$another''\<rparr>, bob]\<rparr>)) =
     fst (get_profile offline (request_by ''alice'') deployment) \<and>
   toJSON alice = alice\<lparr>password := None\<rparr> \<and>
   data (fst (get_me offline (request_by ''alice'') deployment)) =
     Some (UserData (alice\<lparr>password := None\<rparr>))"
proof -
  have sent: "data (fst (get_me offline (request_by ''alice'') deployment)) =
     Some (UserData (alice\<lparr>password := None\<rparr>))"
    by (simp add: get_me_def authenticateToken_def bearer_def me_def User_findById_def
        attempt_def select_default_def toJSON_def toObject_def deployment_defs)
  have same: "map select_default [alice\<lparr>password := Some ''$2a$12$another''\<rparr>, bob] =
      map select_default (users deployment)"
    by (simp add: select_default_def deployment_def)
  show ?thesis
    using password_never_sent [OF same, of alice "password alice" "password alice" offline
        "request_by ''alice''"]
    by (simp add: toJSON_def toObject_def sent)
qed

section \<open>Records of another user\<close>

text \<open>What each route answers when its lookup, scoped to the caller, finds nothing.\<close>

lemma getResume_unowned:
  "List.find (owned i caller) (resumes w) = None \<Longrightarrow>
   fst (getResume env req caller i w) = (case fate 0 w of None \<Rightarrow> rejected 404 ''Resume not found'' req
      | Some m \<Rightarrow> failed env ''Error fetching resume'' (Failure m) req)"
  by (cases "fate 0 w")
     (simp_all add: getResume_def Resume_findOne_ok Resume_findOne_fault)

lemma history_unowned:
  "List.find (owned i caller) (resumes w) = None \<Longrightarrow>
   fst (history env req caller i w) = (case fate 0 w of None \<Rightarrow> rejected 404 ''Resume not found'' req
      | Some m \<Rightarrow> failed env ''Error retrieving resume history'' (Failure m) req)"
  by (cases "fate 0 w")
     (simp_all add: history_def Resume_findOne_ok Resume_findOne_fault)

lemma updateTitle_unowned:
  "List.find (owned i caller) (resumes w) = None \<Longrightarrow>
   fst (updateTitle env req caller i w) =
     (if blank (body_title req) then rejected 400 ''Title is required'' req
      else (case fate 0 w of None \<Rightarrow> rejected 404 ''Resume not found'' req
      | Some m \<Rightarrow> failed env ''Error updating resume title'' (Failure m) req))"
  by (cases "fate 0 w"; cases "body_title req")
     (simp_all add: updateTitle_def blank_def Resume_findOneAndUpdate_def attempt_fate)

lemma deleteResume_unowned:
  "List.find (owned i caller) (resumes w) = None \<Longrightarrow>
   fst (deleteResume env req caller i w) = (case fate 0 w of None \<Rightarrow> rejected 404 ''Resume not found'' req
      | Some m \<Rightarrow> failed env ''Error deleting resume'' (Failure m) req)"
  by (cases "fate 0 w")
     (simp_all add: deleteResume_def Resume_findOneAndDelete_def attempt_fate)

lemma analyze_unowned:
  "List.find (owned i caller) (resumes w) = None \<Longrightarrow>
   fst (analyze env req caller i w) = (case fate 0 w of None \<Rightarrow> rejected 404 ''Resume not found'' req
      | Some m \<Rightarrow> failed env ''Error analyzing resume'' (Failure m) req)"
  by (cases "fate 0 w")
     (simp_all add: analyze_def Resume_findOne_ok Resume_findOne_fault
        analyzeFailed_response)

lemma enhance_unowned:
  "List.find (owned i caller) (resumes w) = None \<Longrightarrow>
   fst (enhance env req caller i body w) = (case fate 0 w of None \<Rightarrow> rejected 404 ''Resume not found'' req
      | Some m \<Rightarrow> failed env ''Error enhancing resume'' (Failure m) req)"
  by (cases "fate 0 w"; cases body)
     (simp_all add: enhance_def Resume_findOne_ok Resume_findOne_fault)

lemma match_unowned:
  "List.find (owned i caller) (resumes w) = None \<Longrightarrow>
   fst (match env req caller i body w) = (case fate 0 w of None \<Rightarrow> rejected 404 ''Resume not found'' req
      | Some m \<Rightarrow> failed env ''Error matching resume with job'' (Failure m) req)"
  by (cases "fate 0 w"; cases body)
     (auto simp add: match_def Resume_findOne_ok Resume_findOne_fault)

text \<open>The quota gate does not read or write the resumes.\<close>

lemma later_resumes: "later (w\<lparr>resumes := rs\<rparr>) = (later w)\<lparr>resumes := rs\<rparr>"
  by (simp add: later_def)

lemma User_save_resumes:
  "User_save env doc (w\<lparr>resumes := rs\<rparr>) =
     (fst (User_save env doc w), (snd (User_save env doc w))\<lparr>resumes := rs\<rparr>)"
  by (cases "fate 0 w") (simp_all add: User_save_def attempt_fate later_resumes Let_def)

lemma User_save_keeps: "resumes (snd (User_save env doc w)) = resumes w"
  by (cases "fate 0 w") (simp_all add: User_save_def attempt_fate Let_def)

lemma checkApiLimit_keeps: "resumes (snd (checkApiLimit env req caller w)) = resumes w"
  by (cases "fate 0 w";
      cases "List.find (\<lambda>u. user_id u = payload_userId caller) (users w)")
     (auto simp add: checkApiLimit_def User_findById_ok User_findById_fault Let_def
        User_save_keeps case_prod_beta split: option.splits sum.splits)

lemma checkApiLimit_resumes:
  "checkApiLimit env req caller (w\<lparr>resumes := rs\<rparr>) =
     (fst (checkApiLimit env req caller w), (snd (checkApiLimit env req caller w))\<lparr>resumes := rs\<rparr>)"
  by (cases "fate 0 w";
      cases "List.find (\<lambda>u. user_id u = payload_userId caller) (users w)")
     (auto simp add: checkApiLimit_def User_findById_ok User_findById_fault Let_def
        later_resumes User_save_resumes case_prod_beta split: option.splits sum.splits)


lemma find_filter_unowned:
  "List.find (owned i caller) (filter (\<lambda>x. resume_id x \<noteq> i) rs) = None"
  by (induction rs) (simp_all add: owned_def)

lemma gated_unowned:
  assumes h: "\<And>x. List.find (owned i caller) (resumes x) = None \<Longrightarrow>
        fst (H x) = (case fate 0 x of None \<Rightarrow> rejected 404 ''Resume not found'' req
                     | Some m \<Rightarrow> failed env msg (Failure m) req)"
    and w: "List.find (owned i caller) (resumes w) = None"
    and rs: "List.find (owned i caller) rs = None"
  shows "fst (case checkApiLimit env req caller (w\<lparr>resumes := rs\<rparr>) of
                (Inl res, w1) \<Rightarrow> (res, w1)
              | (Inr go, w1) \<Rightarrow> H w1) =
         fst (case checkApiLimit env req caller w of
                (Inl res, w1) \<Rightarrow> (res, w1)
              | (Inr go, w1) \<Rightarrow> H w1)"
proof (cases "checkApiLimit env req caller w")
  case (Pair a w1)
  have keeps: "resumes w1 = resumes w"
    using checkApiLimit_keeps [of env req caller w] Pair by simp
  show ?thesis
  proof (cases a)
    case (Inl res)
    then show ?thesis by (simp add: checkApiLimit_resumes Pair)
  next
    case (Inr go)
    have "fst (H (w1\<lparr>resumes := rs\<rparr>)) = fst (H w1)"
      using h [of w1] h [of "w1\<lparr>resumes := rs\<rparr>"] w rs keeps by simp
    then show ?thesis by (simp add: checkApiLimit_resumes Pair Inr)
  qed
qed

lemma gated_passed:
  assumes h: "\<And>x. List.find (owned i caller) (resumes x) = None \<Longrightarrow>
        fst (H x) = (case fate 0 x of None \<Rightarrow> rejected 404 ''Resume not found'' req
                     | Some m \<Rightarrow> failed env msg (Failure m) req)"
    and w: "List.find (owned i caller) (resumes w) = None"
    and pass: "fst (checkApiLimit env req caller w) = Inr ()"
    and calm: "fate 0 (snd (checkApiLimit env req caller w)) = None"
  shows "fst (case checkApiLimit env req caller w of
                (Inl res, w1) \<Rightarrow> (res, w1)
              | (Inr go, w1) \<Rightarrow> H w1) = rejected 404 ''Resume not found'' req"
proof (cases "checkApiLimit env req caller w")
  case (Pair a w1)
  have keeps: "resumes w1 = resumes w"
    using checkApiLimit_keeps [of env req caller w] Pair by simp
  show ?thesis
    using h [of w1] w keeps pass calm by (simp add: Pair)
qed

text \<open>
  C9. A caller asks one of the seven record routes (get, update title, delete, analyze,
  enhance, match, history) for a valid id whose record is not theirs. The answer is the
  one the same request gets when no record has that id, whatever the store operations
  do: every lookup a route makes before it answers is scoped to the caller. That answer
  is the 404 \<open>Resume not found\<close> whenever the request reaches the lookup and the lookup does
  not throw: for get, delete and history always; for update title when the title is not
  blank; for analyze, enhance and match when the body is valid and the quota gate lets the
  request through.
\<close>

theorem foreign_record_not_found:
  assumes param: "resumeId req = Some i" and auth: "authenticateToken env req = Inr caller"
    and exists: "List.find (\<lambda>x. resume_id x = i) (resumes w) = Some r"
    and foreign: "List.find (owned i caller) (resumes w) = None"
    and gone: "v = w\<lparr>resumes := filter (\<lambda>x. resume_id x \<noteq> i) (resumes w)\<rparr>"
  shows
   "userId r \<noteq> payload_userId caller \<and>
    List.find (\<lambda>x. resume_id x = i) (resumes v) = None \<and>
    fst (get_resume env req w) = fst (get_resume env req v) \<and>
    fst (put_title env req w) = fst (put_title env req v) \<and>
    fst (delete_resume env req w) = fst (delete_resume env req v) \<and>
    fst (post_analyze env req w) = fst (post_analyze env req v) \<and>
    fst (post_enhance env req w) = fst (post_enhance env req v) \<and>
    fst (post_match env req w) = fst (post_match env req v) \<and>
    fst (get_history env req w) = fst (get_history env req v) \<and>
    (fate 0 w = None \<longrightarrow>
       fst (get_resume env req w) = rejected 404 ''Resume not found'' req \<and>
       fst (delete_resume env req w) = rejected 404 ''Resume not found'' req \<and>
       fst (get_history env req w) = rejected 404 ''Resume not found'' req \<and>
       (\<not> blank (body_title req) \<longrightarrow>
          fst (put_title env req w) = rejected 404 ''Resume not found'' req)) \<and>
    (fst (checkApiLimit env req caller w) = Inr () \<and>
     fate 0 (snd (checkApiLimit env req caller w)) = None \<longrightarrow>
       fst (post_analyze env req w) = rejected 404 ''Resume not found'' req \<and>
       ((\<exists>body. validateEnhanceRequest req = Inr body) \<longrightarrow>
          fst (post_enhance env req w) = rejected 404 ''Resume not found'' req) \<and>
       ((\<exists>body. validateMatchRequest req = Inr body) \<longrightarrow>
          fst (post_match env req w) = rejected 404 ''Resume not found'' req))"
proof -
  let ?rs = "filter (\<lambda>x. resume_id x \<noteq> i) (resumes w)"
  have absent: "List.find (owned i caller) ?rs = None" by (rule find_filter_unowned)
  have valid: "validateResumeId req = Inr i" using param by (simp add: validateResumeId_def)
  have other: "userId r \<noteq> payload_userId caller"
  proof
    assume "userId r = payload_userId caller"
    then have "owned i caller r" using find_holds [OF exists] by (simp add: owned_def)
    moreover have "r \<in> set (resumes w)" using find_member [OF exists] .
    ultimately show False using foreign by (auto simp add: find_None_iff)
  qed
  have none: "List.find (\<lambda>x. resume_id x = i) (resumes v) = None"
    unfolding gone by (simp add: find_None_iff)
  have plain:
    "fst (get_resume env req w) = fst (get_resume env req v)"
    "fst (put_title env req w) = fst (put_title env req v)"
    "fst (delete_resume env req w) = fst (delete_resume env req v)"
    "fst (get_history env req w) = fst (get_history env req v)"
    unfolding gone using foreign absent
    by (simp_all add: get_resume_def put_title_def delete_resume_def get_history_def valid auth
        getResume_unowned updateTitle_unowned deleteResume_unowned history_unowned)
  have gated:
    "fst (post_analyze env req w) = fst (post_analyze env req v)"
    "fst (post_enhance env req w) = fst (post_enhance env req v)"
    "fst (post_match env req w) = fst (post_match env req v)"
    unfolding gone post_analyze_def post_enhance_def post_match_def
    using gated_unowned [of i caller "analyze env req caller i" req env _ w ?rs,
        OF analyze_unowned foreign absent]
      gated_unowned [of i caller "enhance env req caller i body" req env _ w ?rs for body,
        OF enhance_unowned foreign absent]
      gated_unowned [of i caller "match env req caller i body" req env _ w ?rs for body,
        OF match_unowned foreign absent]
    by (simp_all add: valid auth split: sum.splits)
  have found404: "fate 0 w = None \<Longrightarrow>
       fst (get_resume env req w) = rejected 404 ''Resume not found'' req \<and>
       fst (delete_resume env req w) = rejected 404 ''Resume not found'' req \<and>
       fst (get_history env req w) = rejected 404 ''Resume not found'' req \<and>
       (\<not> blank (body_title req) \<longrightarrow>
          fst (put_title env req w) = rejected 404 ''Resume not found'' req)"
    using foreign
    by (simp add: get_resume_def put_title_def delete_resume_def get_history_def valid auth
        getResume_unowned updateTitle_unowned deleteResume_unowned history_unowned)
  have gated404: "fst (checkApiLimit env req caller w) = Inr () \<and>
     fate 0 (snd (checkApiLimit env req caller w)) = None \<Longrightarrow>
       fst (post_analyze env req w) = rejected 404 ''Resume not found'' req \<and>
       ((\<exists>body. validateEnhanceRequest req = Inr body) \<longrightarrow>
          fst (post_enhance env req w) = rejected 404 ''Resume not found'' req) \<and>
       ((\<exists>body. validateMatchRequest req = Inr body) \<longrightarrow>
          fst (post_match env req w) = rejected 404 ''Resume not found'' req)"
  proof -
    assume p: "fst (checkApiLimit env req caller w) = Inr () \<and>
     fate 0 (snd (checkApiLimit env req caller w)) = None"
    show ?thesis
      unfolding post_analyze_def post_enhance_def post_match_def
      using gated_passed [of i caller "analyze env req caller i" req env _ w,
          OF analyze_unowned foreign] 
        gated_passed [of i caller "enhance env req caller i body" req env _ w for body,
          OF enhance_unowned foreign]
        gated_passed [of i caller "match env req caller i body" req env _ w for body,
          OF match_unowned foreign] p
      by (auto simp add: valid auth)
  qed
  show ?thesis
    using other none plain gated found404 gated404 by blast
qed

text \<open>Bob asks for a resume of Alice's, and for one that does not exist: 404 both times,
  from the get route and from the analyze route.\<close>

theorem foreign_record_not_found_witness:
  "fst (get_resume offline (request_by ''bob'') (deployment\<lparr>resumes := [cv\<lparr>userId := 1\<rparr>]\<rparr>)) =
     rejected 404 ''Resume not found'' (request_by ''bob'') \<and>
   fst (get_resume offline (request_by ''bob'') (deployment\<lparr>resumes := []\<rparr>)) =
     rejected 404 ''Resume not found'' (request_by ''bob'') \<and>
   fst (post_analyze offline (request_by ''bob'') (deployment\<lparr>resumes := [cv\<lparr>userId := 1\<rparr>]\<rparr>)) =
     rejected 404 ''Resume not found'' (request_by ''bob'') \<and>
   fst (post_analyze offline (request_by ''bob'') (deployment\<lparr>resumes := []\<rparr>)) =
     rejected 404 ''Resume not found'' (request_by ''bob'')"
proof -
  let ?w = "deployment\<lparr>resumes := [cv\<lparr>userId := 1\<rparr>]\<rparr>"
  have param: "resumeId (request_by ''bob'') = Some 10"
    by (simp add: request_by_def)
  have auth: "authenticateToken offline (request_by ''bob'') = Inr as_bob"
    by (simp add: authenticateToken_def bearer_def request_by_def offline_def)
  have exists: "List.find (\<lambda>x. resume_id x = 10) (resumes ?w) = Some (cv\<lparr>userId := 1\<rparr>)"
    by (simp add: cv_def)
  have foreign: "List.find (owned 10 as_bob) (resumes ?w) = None"
    by (simp add: owned_def cv_def as_bob_def)
  have gone: "deployment\<lparr>resumes := []\<rparr> =
      ?w\<lparr>resumes := filter (\<lambda>x. resume_id x \<noteq> 10) (resumes ?w)\<rparr>"
    by (simp add: cv_def)
  have calm: "fate 0 ?w = None"
    by (simp add: fate_def deployment_def)
  have pass: "fst (checkApiLimit offline (request_by ''bob'') as_bob ?w) = Inr ()"
    "fate 0 (snd (checkApiLimit offline (request_by ''bob'') as_bob ?w)) = None"
    by (simp_all add: checkApiLimit_def User_findById_def User_save_def attempt_def fate_def
        user_valid_def select_default_def monthlyReset_def limitFor_def tierLimit_def Let_def
        deployment_def alice_def bob_def as_bob_def offline_def january_def february_def)
  show ?thesis
    using foreign_record_not_found [OF param auth exists foreign gone] calm pass
    by metis
qed

section \<open>The error handler of the analyze route\<close>

text \<open>
  The error handler of the analyze route is not scoped to the caller: when the route's
  lookup throws and the handler's update does not, the answer is 500 and the record with
  the requested id, whoever owns it and whatever its status, is stored with status
  \<open>uploaded\<close>; no other record changes.
\<close>

theorem analyze_handler_unscoped:
  assumes down: "fate 0 w = Some m" and calm: "fate 1 w = None"
    and byid: "List.find (\<lambda>x. resume_id x = i) (resumes w) = Some r"
  shows
   "fst (analyze env req caller i w) = failed env ''Error analyzing resume'' (Failure m) req \<and>
    List.find (\<lambda>x. resume_id x = i) (resumes (snd (analyze env req caller i w))) =
      Some (r\<lparr>status := Uploaded, updatedAt := now env\<rparr>) \<and>
    filter (\<lambda>x. resume_id x \<noteq> i) (resumes (snd (analyze env req caller i w))) =
      filter (\<lambda>x. resume_id x \<noteq> i) (resumes w)"
proof -
  let ?r0 = "r\<lparr>status := Uploaded, updatedAt := now env\<rparr>"
  have id: "resume_id r = i" using find_holds [OF byid] .
  have ex: "\<exists>x\<in>set (resumes w). resume_id x = i"
    using find_member [OF byid] id by blast
  have run: "analyze env req caller i w = analyzeFailed env req i (Failure m) (later w)"
    by (simp add: analyze_def Resume_findOne_fault [OF down])
  have c: "fate 0 (later w) = None" using calm by simp
  have b: "List.find (\<lambda>x. resume_id x = i) (resumes (later w)) = Some r" using byid by simp
  have rs: "resumes (snd (analyzeFailed env req i (Failure m) (later w))) = replace ?r0 (resumes w)"
    unfolding analyzeFailed_ok [OF c b] by simp
  have byid0: "List.find (\<lambda>x. resume_id x = i) (replace ?r0 (resumes w)) = Some ?r0"
    using find_replace [of "\<lambda>x. resume_id x = i" ?r0 "resumes w"] ex id by simp
  have others: "filter (\<lambda>x. resume_id x \<noteq> i) (replace ?r0 (resumes w)) =
      filter (\<lambda>x. resume_id x \<noteq> i) (resumes w)"
    using filter_replace [of ?r0 "resumes w"] id by simp
  show ?thesis
    unfolding run rs using byid0 others by (simp add: analyzeFailed_response)
qed

text \<open>Alice asks for an analysis of Bob's resume, which is \<open>analyzed\<close>, while the store fails
  once: she is answered 500 and Bob's resume is \<open>uploaded\<close> again.\<close>

theorem analyze_handler_unscoped_witness:
  "userId cv \<noteq> payload_userId as_alice \<and>
   statusCode (fst (analyze offline (request_by ''alice'') as_alice 10
       (deployment\<lparr>resumes := [cv\<lparr>status := Analyzed\<rparr>], faults := [Some ''down'']\<rparr>))) = 500 \<and>
   resumes (snd (analyze offline (request_by ''alice'') as_alice 10
       (deployment\<lparr>resumes := [cv\<lparr>status := Analyzed\<rparr>], faults := [Some ''down'']\<rparr>))) =
     [cv\<lparr>status := Uploaded, updatedAt := february\<rparr>]"
proof -
  let ?w = "deployment\<lparr>resumes := [cv\<lparr>status := Analyzed\<rparr>], faults := [Some ''down'']\<rparr>"
  have down: "fate 0 ?w = Some ''down''" and calm: "fate 1 ?w = None"
    by (simp_all add: fate_def)
  have byid: "List.find (\<lambda>x. resume_id x = 10) (resumes ?w) = Some (cv\<lparr>status := Analyzed\<rparr>)"
    by (simp add: cv_def)
  have other: "userId cv \<noteq> payload_userId as_alice"
    by (simp add: cv_def as_alice_def)
  have clock: "now offline = february" by (simp add: offline_def)
  have "resumes (snd (analyze offline (request_by ''alice'') as_alice 10 ?w)) =
      [cv\<lparr>status := Uploaded, updatedAt := february\<rparr>]"
    by (simp add: analyze_def analyzeFailed_def Resume_findOne_def Resume_findOneAndUpdate_def
        attempt_def replace_def Let_def offline_def cv_def)
  then show ?thesis
    using analyze_handler_unscoped [OF down calm byid, of offline "request_by ''alice''" as_alice]
      other
    by (simp add: failed_def)
qed

end
